theory Spec2Isabelle
  imports Complex_Main "HOL-Library.Monad_Syntax"
begin

section \<open>Work Unit Store (src/src/process\_papers\_enhanced.py)\<close>

text \<open>
  Text is modelled as \<open>string\<close>; SQL \<open>NULL\<close> and Python \<open>None\<close> are \<open>None\<close> of an
  option type. Token counts are Python integers (\<open>int\<close>); costs and durations are Python
  floats, modelled in exact rational arithmetic (\<open>rat\<close>).

  The fields shared by every per-unit result dictionary of the repository are collected
  in one record, which the two kinds of result (paper evaluation, theory normalization)
  extend with their own fields.
\<close>

record unit_result =
  doi :: string
  prompt_tokens :: int
  completion_tokens :: int
  total_tokens :: int
  cost_usd :: rat
  success :: int
  error_message :: "string option"

text \<open>The \<open>result\<close> dictionary built by \<open>process_single_paper\<close> and bound by \<open>save_result\<close>.\<close>

record eval_result = unit_result +
  pmid :: "string option"
  title :: string
  result :: "string option"
  aging_theory :: "string option"
  paper_type :: "string option"
  reasoning :: "string option"
  confidence_score :: "int option"
  processing_time_seconds :: rat

text \<open>
  A row of table \<open>paper_evaluations\<close> (\<open>init_results_database\<close>): the seventeen columns,
  \<open>doi TEXT PRIMARY KEY\<close>. The table is the list of its rows in rowid order.
\<close>

record eval_row = eval_result +
  timestamp :: string
  model_used :: string

type_synonym store = "eval_row list"

text \<open>A row of the source table \<open>papers\<close>: the four columns the pipeline reads.\<close>

record papers_row =
  src_doi :: "string option"
  src_pmid :: "string option"
  src_title :: "string option"
  src_abstract :: "string option"

type_synonym paper_data = "string \<times> string option \<times> string \<times> string"

text \<open>
  The \<open>WHERE\<close> clause of the query of \<open>get_unprocessed_papers\<close>:
  \<open>doi IS NOT NULL AND title IS NOT NULL AND abstract IS NOT NULL AND abstract != ''\<close>.
\<close>

fun eligible :: "papers_row \<Rightarrow> bool" where
  "eligible p = (src_doi p \<noteq> None \<and> src_title p \<noteq> None \<and> src_abstract p \<noteq> None
                 \<and> src_abstract p \<noteq> Some [])"

text \<open>\<open>LIMIT k\<close> of SQLite: a negative bound means no bound.\<close>

definition sql_limit :: "int \<Rightarrow> 'a list \<Rightarrow> 'a list" where
  "sql_limit k xs = (if k < 0 then xs else take (nat k) xs)"

text \<open>The Python slice \<open>xs[:k]\<close>: a negative bound counts from the end.\<close>

definition py_slice_to :: "int \<Rightarrow> 'a list \<Rightarrow> 'a list" where
  "py_slice_to k xs = (if k < 0 then take (length xs - nat (- k)) xs else take (nat k) xs)"

text \<open>\<open>if limit:\<close> holds for an integer other than zero.\<close>

fun truthy_limit :: "int option \<Rightarrow> bool" where
  "truthy_limit None = False"
| "truthy_limit (Some k) = (k \<noteq> 0)"

definition select_papers :: "int option \<Rightarrow> papers_row list \<Rightarrow> papers_row list" where
  "select_papers limit papers =
     (if truthy_limit limit then sql_limit (the limit * 3) (filter eligible papers)
      else filter eligible papers)"

definition to_paper_data :: "papers_row \<Rightarrow> paper_data" where
  "to_paper_data row = (the (src_doi row), src_pmid row, the (src_title row), the (src_abstract row))"

text \<open>\<open>processed_dois = {row[0] for row in SELECT doi FROM paper_evaluations}\<close>.\<close>

definition processed_dois :: "store \<Rightarrow> string set" where
  "processed_dois st = set (map doi st)"

definition get_unprocessed_papers :: "int option \<Rightarrow> papers_row list \<Rightarrow> store \<Rightarrow> paper_data list" where
  "get_unprocessed_papers limit papers st =
     (let all_papers = select_papers limit papers;
          unprocessed = map to_paper_data
                          (filter (\<lambda>row. the (src_doi row) \<notin> processed_dois st) all_papers)
      in if truthy_limit limit then py_slice_to (the limit) unprocessed else unprocessed)"

text \<open>The quantities the resumability property speaks of.\<close>

definition eligible_papers :: "papers_row list \<Rightarrow> papers_row list" where
  "eligible_papers papers = filter eligible papers"

definition successful_rows :: "store \<Rightarrow> eval_row list" where
  "successful_rows st = filter (\<lambda>r. success r = 1) st"

definition failed_rows :: "store \<Rightarrow> eval_row list" where
  "failed_rows st = filter (\<lambda>r. success r = 0) st"

definition has_row :: "store \<Rightarrow> papers_row \<Rightarrow> bool" where
  "has_row st p = (the (src_doi p) \<in> processed_dois st)"

subsection \<open>The upsert\<close>



definition to_row :: "eval_result \<Rightarrow> string \<Rightarrow> eval_row" where
  "to_row r now = eval_result.extend r (eval_row.fields now ''gpt-4.1-mini'')"





subsection \<open>Example data: the scenario of three records\<close>

definition mk_result :: "string \<Rightarrow> int \<Rightarrow> string option \<Rightarrow> eval_result" where
  "mk_result d s e = \<lparr> doi = d, prompt_tokens = 0, completion_tokens = 0, total_tokens = 0,
      cost_usd = 0, success = s, error_message = e, pmid = None, title = ''t'', result = None,
      aging_theory = None, paper_type = None, reasoning = None, confidence_score = None,
      processing_time_seconds = 0 \<rparr>"

definition ex_corpus :: "papers_row list" where
  "ex_corpus = [\<lparr> src_doi = Some ''doiA'', src_pmid = None, src_title = Some ''tA'', src_abstract = Some ''aA'' \<rparr>,
                \<lparr> src_doi = Some ''doiB'', src_pmid = None, src_title = Some ''tB'', src_abstract = Some ''aB'' \<rparr>,
                \<lparr> src_doi = Some ''doiC'', src_pmid = None, src_title = Some ''tC'', src_abstract = Some ''aC'' \<rparr>]"

text \<open>\<open>doiA\<close> and \<open>doiC\<close> succeeded, \<open>doiB\<close> failed.\<close>

definition ex_store :: store where
  "ex_store = [to_row (mk_result ''doiA'' 1 None) ''t1'',
               to_row (mk_result ''doiB'' 0 (Some ''JSON parsing failed after 3 retries'')) ''t2'',
               to_row (mk_result ''doiC'' 1 None) ''t3'']"

text \<open>Only the failed row of \<open>doiB\<close>.\<close>

definition ex_store_failed :: store where
  "ex_store_failed = [to_row (mk_result ''doiB'' 0 (Some ''JSON parsing failed after 3 retries'')) ''t2'']"

section \<open>Python text and JSON values\<close>

text \<open>
  Text is modelled over the ASCII characters: \<open>str.lower\<close> maps \<open>A\<close>..\<open>Z\<close> to \<open>a\<close>..\<open>z\<close>
  and leaves every other character alone, and the whitespace of \<open>str.strip()\<close> is the
  ASCII whitespace of Python (codes 9 to 13, 28 to 31 and the space).
\<close>

definition whitespace :: "char list" where
  "whitespace = [CHR 0x09, CHR 0x0A, CHR 0x0B, CHR 0x0C, CHR 0x0D,
                 CHR 0x1C, CHR 0x1D, CHR 0x1E, CHR 0x1F, CHR '' '']"

text \<open>\<open>s.strip(chars)\<close>: drop from both ends every character that occurs in \<open>chars\<close>.\<close>

definition py_strip_chars :: "string \<Rightarrow> string \<Rightarrow> string" where
  "py_strip_chars chars s =
     rev (dropWhile (\<lambda>c. c \<in> set chars) (rev (dropWhile (\<lambda>c. c \<in> set chars) s)))"

definition py_strip :: "string \<Rightarrow> string" where
  "py_strip s = py_strip_chars whitespace s"

definition lower_char :: "char \<Rightarrow> char" where
  "lower_char c = (let n = (of_char c :: nat) in if 65 \<le> n \<and> n \<le> 90 then char_of (n + 32) else c)"

definition py_lower :: "string \<Rightarrow> string" where
  "py_lower s = map lower_char s"

definition startswith :: "string \<Rightarrow> string \<Rightarrow> bool" where
  "startswith s pre = (take (length pre) s = pre)"

text \<open>\<open>sep.join(xs)\<close>.\<close>

fun py_join :: "string \<Rightarrow> string list \<Rightarrow> string" where
  "py_join sep [] = []"
| "py_join sep [x] = x"
| "py_join sep (x # y # ys) = x @ sep @ py_join sep (y # ys)"

text \<open>\<open>str(n)\<close> of an integer: its decimal digits.\<close>

function str_nat :: "nat \<Rightarrow> string" where
  "str_nat n = (if n < 10 then [char_of (48 + n)] else str_nat (n div 10) @ [char_of (48 + n mod 10)])"
  by pat_completeness auto
termination
  by (relation "measure id") auto

declare str_nat.simps [simp del]

definition str_int :: "int \<Rightarrow> string" where
  "str_int i = (if i < 0 then CHR ''-'' # str_nat (nat (- i)) else str_nat (nat i))"

text \<open>
  The values \<open>json.loads\<close> produces. A Python float is a rational or one of the three
  non-finite values that \<open>json.loads\<close> accepts; an object is a dictionary, kept as the list
  of its items in insertion order, keys unique.
\<close>

datatype pyfloat = Finite rat | PosInf | NegInf | NaN

datatype json = JNull | JBool bool | JInt int | JFloat pyfloat | JStr string
  | JList "json list" | JObj "(string \<times> json) list"

text \<open>\<open>type(v).__name__\<close>, as Python's error messages print it.\<close>

fun type_name :: "json \<Rightarrow> string" where
  "type_name JNull = ''NoneType''"
| "type_name (JBool b) = ''bool''"
| "type_name (JInt i) = ''int''"
| "type_name (JFloat f) = ''float''"
| "type_name (JStr s) = ''str''"
| "type_name (JList xs) = ''list''"
| "type_name (JObj kvs) = ''dict''"

text \<open>\<open>d[k] = v\<close> on a dictionary: an existing key keeps its place.\<close>

fun dict_set :: "string \<Rightarrow> json \<Rightarrow> (string \<times> json) list \<Rightarrow> (string \<times> json) list" where
  "dict_set k v [] = [(k, v)]"
| "dict_set k v ((k', v') # kvs) = (if k' = k then (k, v) # kvs else (k', v') # dict_set k v kvs)"

text \<open>\<open>d.get(k)\<close> and \<open>d.get(k, default)\<close>.\<close>

definition dict_get :: "(string \<times> json) list \<Rightarrow> string \<Rightarrow> json" where
  "dict_get kvs k = (case map_of kvs k of None \<Rightarrow> JNull | Some v \<Rightarrow> v)"

definition dict_get_default :: "(string \<times> json) list \<Rightarrow> string \<Rightarrow> json \<Rightarrow> json" where
  "dict_get_default kvs k d = (case map_of kvs k of None \<Rightarrow> d | Some v \<Rightarrow> v)"

section \<open>Judge Client (src/src/llm\_judge.py)\<close>

definition RETRIES :: int where "RETRIES = 3"
definition BASE_DELAY :: rat where "BASE_DELAY = 1 / 2"
definition RATE_LIMIT_WAIT :: rat where "RATE_LIMIT_WAIT = 3 / 2"

text \<open>\<open>resp.usage\<close>: prompt, completion and total tokens.\<close>

record usage =
  usage_prompt_tokens :: int
  usage_completion_tokens :: int
  usage_total_tokens :: int

text \<open>
  What one call of \<open>chat.completions.create\<close> does: it raises \<open>RateLimitError\<close>, raises
  another exception, or returns a response with its message content (which may be \<open>None\<close>)
  and usage. The string of an error is \<open>str(e)\<close>. A response that cannot be read
  (no choice, no usage) raises where it is read, before any result is assigned, and
  counts as \<open>ApiError\<close>.
\<close>

datatype api_outcome = RateLimitError string | ApiError string | ApiResponse "string option" usage

text \<open>
  Lines 53 to 55: the content is stripped of whitespace, and when it then starts with three
  backquotes, of every leading and trailing character of \<open>" ```json\n"\<close>.
\<close>

definition fence_chars :: string where
  "fence_chars = [CHR '' '', CHR 0x60, CHR 0x60, CHR 0x60, CHR ''j'', CHR ''s'', CHR ''o'', CHR ''n'', CHR 0x0A]"

definition backquotes :: string where
  "backquotes = [CHR 0x60, CHR 0x60, CHR 0x60]"

definition clean_result_json :: "string \<Rightarrow> string" where
  "clean_result_json content =
     (let result_json = py_strip content
      in if startswith result_json backquotes then py_strip_chars fence_chars result_json
         else result_json)"

text \<open>
  The three ways the body of the \<open>try\<close> ends in an exception, by the handler that catches it,
  and the way it returns. \<open>json.loads\<close> is the library's parser, a parameter \<open>loads\<close> of the
  model: \<open>Inl msg\<close> is \<open>JSONDecodeError\<close> with \<open>str(e) = msg\<close>.
\<close>

datatype attempt_result = RateLimited string | DecodeFailed string | OtherFailed string | Judged json

definition tokens_dict :: "usage \<Rightarrow> json" where
  "tokens_dict u = JObj [(''prompt_tokens'', JInt (usage_prompt_tokens u)),
                         (''completion_tokens'', JInt (usage_completion_tokens u)),
                         (''total_tokens'', JInt (usage_total_tokens u))]"

text \<open>\<open>result['_tokens'] = {...}\<close>: item assignment, which only a dictionary (by key) supports.\<close>

fun set_tokens :: "json \<Rightarrow> usage \<Rightarrow> attempt_result" where
  "set_tokens (JObj kvs) u = Judged (JObj (dict_set ''_tokens'' (tokens_dict u) kvs))"
| "set_tokens (JList xs) u = OtherFailed ''list indices must be integers or slices, not str''"
| "set_tokens v u = OtherFailed ([CHR 0x27] @ type_name v @ [CHR 0x27] @ '' object does not support item assignment'')"

fun judge_attempt :: "(string \<Rightarrow> string + json) \<Rightarrow> api_outcome \<Rightarrow> attempt_result" where
  "judge_attempt loads (RateLimitError e) = RateLimited e"
| "judge_attempt loads (ApiError e) = OtherFailed e"
| "judge_attempt loads (ApiResponse None u) =
     OtherFailed ([CHR 0x27] @ ''NoneType'' @ [CHR 0x27] @ '' object has no attribute '' @ [CHR 0x27] @ ''strip'' @ [CHR 0x27])"
| "judge_attempt loads (ApiResponse (Some content) u) =
     (case loads (clean_result_json content) of
        Inl e \<Rightarrow> DecodeFailed e
      | Inr v \<Rightarrow> set_tokens v u)"

text \<open>
  The state the loop leaves behind: the number of calls of the oracle and the durations
  passed to \<open>time.sleep\<close>, in order.
\<close>

record judge_trace =
  calls :: nat
  sleeps :: "rat list"

definition add_sleep :: "rat \<Rightarrow> judge_trace \<Rightarrow> judge_trace" where
  "add_sleep d t = t\<lparr> sleeps := sleeps t @ [d] \<rparr>"

definition add_call :: "judge_trace \<Rightarrow> judge_trace" where
  "add_call t = t\<lparr> calls := Suc (calls t) \<rparr>"

text \<open>
  \<open>llm_judge(jointtext, retries)\<close>: the loop \<open>while n < retries\<close>. \<open>api k\<close> is what the
  \<open>k\<close>-th call of the oracle does, \<open>rnd k\<close> the value \<open>random.uniform\<close> returns during
  iteration \<open>k\<close>. The result is \<open>Inl msg\<close> for \<open>raise Exception(msg)\<close>.
\<close>

function llm_judge_loop :: "(nat \<Rightarrow> api_outcome) \<Rightarrow> (string \<Rightarrow> string + json) \<Rightarrow> (nat \<Rightarrow> rat) \<Rightarrow> int
                             \<Rightarrow> nat \<Rightarrow> judge_trace \<Rightarrow> (string + json) \<times> judge_trace" where
  "llm_judge_loop api loads rnd retries n t =
     (if int n < retries then
        (case judge_attempt loads (api n) of
           Judged v \<Rightarrow> (Inr v, add_sleep (BASE_DELAY + rnd n) (add_call t))
         | RateLimited e \<Rightarrow>
             (let wait_time = RATE_LIMIT_WAIT * 2 ^ (Suc n - 1) + rnd n
              in if int (Suc n) < retries
                 then llm_judge_loop api loads rnd retries (Suc n) (add_sleep wait_time (add_call t))
                 else (Inl (''Rate limit exceeded after '' @ str_int retries @ '' retries: '' @ e),
                       add_call t))
         | DecodeFailed e \<Rightarrow>
             (if int (Suc n) < retries
              then llm_judge_loop api loads rnd retries (Suc n) (add_sleep 2 (add_call t))
              else (Inl (''JSON parsing failed after '' @ str_int retries @ '' retries: '' @ e),
                    add_call t))
         | OtherFailed e \<Rightarrow>
             (let wait_time = 2 * rat_of_nat (Suc n)
              in if int (Suc n) < retries
                 then llm_judge_loop api loads rnd retries (Suc n) (add_sleep wait_time (add_call t))
                 else (Inl (''Failed after '' @ str_int retries @ '' retries: '' @ e), add_call t)))
      else (Inl (''Failed after '' @ str_int retries @ '' retries''), t))"
  by pat_completeness auto
termination
  by (relation "measure (\<lambda>(api, loads, rnd, retries, n, t). nat retries - n)") auto

declare llm_judge_loop.simps [simp del]

definition llm_judge :: "(nat \<Rightarrow> api_outcome) \<Rightarrow> (string \<Rightarrow> string + json) \<Rightarrow> (nat \<Rightarrow> rat) \<Rightarrow> int
                         \<Rightarrow> (string + json) \<times> judge_trace" where
  "llm_judge api loads rnd retries = llm_judge_loop api loads rnd retries 0 \<lparr> calls = 0, sleeps = [] \<rparr>"

text \<open>The waits of the rate-limit handler between attempts: after the \<open>n\<close>-th attempt (counted from 1).\<close>

definition rate_limit_wait :: "(nat \<Rightarrow> rat) \<Rightarrow> nat \<Rightarrow> rat" where
  "rate_limit_wait rnd n = RATE_LIMIT_WAIT * 2 ^ (n - 1) + rnd (n - 1)"

section \<open>Run entry (validate\_runtime, process\_papers\_parallel)\<close>
















section \<open>Batch Reconciler (src/scripts/normalization/normalize\_theories.py)\<close>

text \<open>
  A paper of the batch: of the dictionary built by \<open>load_valid_papers\<close> the functions below
  read the keys \<open>doi\<close> and \<open>aging_theory\<close> only. The theory is whatever JSON value the
  results file held (a text or a list).
\<close>

record paper =
  paper_doi :: string
  paper_aging_theory :: json

text \<open>An ontology entry, with the five keys the pipeline writes for a new entry.\<close>

record ontology_entry =
  theory_name :: string
  seed_keyword_list :: "json list"
  theory_category :: string
  sub_category :: string
  main_concepts :: string

type_synonym ontology = "ontology_entry list"

text \<open>
  The result dictionary of one paper. \<open>norm_theories\<close> is \<open>None\<close> or the list of
  \<open>{'theory': name, 'confidence': conf}\<close>.
\<close>

record norm_result = unit_result +
  initial_theory :: json
  norm_theories :: "(string \<times> json) list option"
  mapping_reasoning :: "string option"
  new_theory_keywords :: "json list"
  retry_attempt :: int

definition init_result :: "paper \<Rightarrow> norm_result" where
  "init_result p = \<lparr> doi = paper_doi p, prompt_tokens = 0, completion_tokens = 0, total_tokens = 0,
      cost_usd = 0, success = 0, error_message = None,
      initial_theory = paper_aging_theory p, norm_theories = None, mapping_reasoning = None,
      new_theory_keywords = [], retry_attempt = 0 \<rparr>"

text \<open>
  \<open>str(v)\<close>: a text is itself; what \<open>str\<close> prints for any other value (numbers, nested
  lists, dictionaries) is left to a parameter \<open>repr\<close> of the model.
\<close>

definition py_str :: "(json \<Rightarrow> string) \<Rightarrow> json \<Rightarrow> string" where
  "py_str repr v = (case v of JStr s \<Rightarrow> s | _ \<Rightarrow> repr v)"

text \<open>The inner function \<open>normalize_theory_key\<close>.\<close>

definition normalize_theory_key :: "(json \<Rightarrow> string) \<Rightarrow> json \<Rightarrow> string" where
  "normalize_theory_key repr theory =
     py_strip (py_lower (case theory of
                           JList ts \<Rightarrow> py_join '', '' (map (py_str repr) ts)
                         | _ \<Rightarrow> py_str repr theory))"

definition quoted :: "string \<Rightarrow> string" where
  "quoted s = [CHR 0x27] @ s @ [CHR 0x27]"

text \<open>The message of the \<open>AttributeError\<close> of \<open>v.attr\<close>.\<close>

definition attribute_error :: "json \<Rightarrow> string \<Rightarrow> string" where
  "attribute_error v attr = quoted (type_name v) @ '' object has no attribute '' @ quoted attr"

text \<open>The message of the \<open>TypeError\<close> of comparing \<open>v\<close> with an integer.\<close>

definition not_supported :: "string \<Rightarrow> json \<Rightarrow> string" where
  "not_supported opr v = quoted opr @ '' not supported between instances of ''
                          @ quoted (type_name v) @ '' and '' @ quoted ''int''"

text \<open>\<open>conf > 6\<close> and \<open>conf < 6\<close>: numbers and booleans compare, anything else raises.\<close>

fun greater_than_6 :: "json \<Rightarrow> string + bool" where
  "greater_than_6 (JInt i) = Inr (i > 6)"
| "greater_than_6 (JFloat (Finite q)) = Inr (q > 6)"
| "greater_than_6 (JFloat PosInf) = Inr True"
| "greater_than_6 (JFloat NegInf) = Inr False"
| "greater_than_6 (JFloat NaN) = Inr False"
| "greater_than_6 (JBool b) = Inr False"
| "greater_than_6 v = Inl (not_supported ''>'' v)"

fun less_than_6 :: "json \<Rightarrow> string + bool" where
  "less_than_6 (JInt i) = Inr (i < 6)"
| "less_than_6 (JFloat (Finite q)) = Inr (q < 6)"
| "less_than_6 (JFloat PosInf) = Inr False"
| "less_than_6 (JFloat NegInf) = Inr True"
| "less_than_6 (JFloat NaN) = Inr False"
| "less_than_6 (JBool b) = Inr True"
| "less_than_6 v = Inl (not_supported ''<'' v)"

text \<open>\<open>if not isinstance(v, list): v = [v]\<close>.\<close>

fun as_list :: "json \<Rightarrow> json list" where
  "as_list (JList xs) = xs"
| "as_list v = [v]"

text \<open>\<open>[name for name in mapped_names if isinstance(name, str)]\<close>.\<close>

fun str_names :: "json list \<Rightarrow> string list" where
  "str_names [] = []"
| "str_names (JStr s # vs) = s # str_names vs"
| "str_names (v # vs) = str_names vs"

text \<open>Rule 1 of the conservative mode: the pairs of \<open>zip(mapped_names, confidences)\<close> with \<open>conf > 6\<close>.\<close>

fun filter_pairs :: "(string \<times> json) list \<Rightarrow> string + (string \<times> json) list" where
  "filter_pairs [] = Inr []"
| "filter_pairs ((name, conf) # rest) =
     (case greater_than_6 conf of
        Inl e \<Rightarrow> Inl e
      | Inr keep \<Rightarrow>
          (case filter_pairs rest of
             Inl e \<Rightarrow> Inl e
           | Inr pairs \<Rightarrow> Inr (if keep then (name, conf) # pairs else pairs)))"

definition seed_theory_names :: "ontology \<Rightarrow> string set" where
  "seed_theory_names ont = set (map (\<lambda>t. py_strip (py_lower (theory_name t))) ont)"

text \<open>\<open>name[4:] if name.startswith('NEW_') else name\<close>, lower-cased and stripped, is a seed name.\<close>

definition in_seed :: "ontology \<Rightarrow> string \<Rightarrow> bool" where
  "in_seed ont name =
     (py_strip (py_lower (if startswith name ''NEW_'' then drop 4 name else name))
        \<in> seed_theory_names ont)"

text \<open>
  The loop that builds \<open>norm_theories\<close> from \<open>mapped_names\<close> and \<open>confidences\<close>; \<open>i\<close> is the
  index of \<open>enumerate\<close>. \<open>confidences[0]\<close> raises on the empty list, and \<open>conf < 6\<close> is
  evaluated only when the mode is not conservative.
\<close>

fun build_norm_theories :: "bool \<Rightarrow> (json \<Rightarrow> string) \<Rightarrow> json \<Rightarrow> json list \<Rightarrow> nat \<Rightarrow> string list
                             \<Rightarrow> string + (string \<times> json) list" where
  "build_norm_theories conservative repr theory confidences i [] = Inr []"
| "build_norm_theories conservative repr theory confidences i (name # rest) =
     (case (if i < length confidences then Inr (confidences ! i)
            else (case confidences of [] \<Rightarrow> Inl ''list index out of range'' | c # cs \<Rightarrow> Inr c)) of
        Inl e \<Rightarrow> Inl e
      | Inr conf \<Rightarrow>
          (case (if conservative then Inr False else less_than_6 conf) of
             Inl e \<Rightarrow> Inl e
           | Inr low \<Rightarrow>
               (let name' = (if \<not> conservative \<and> low \<and> \<not> startswith name ''NEW_''
                                   then ''NEW_'' @ py_str repr theory else name)
                in case build_norm_theories conservative repr theory confidences (Suc i) rest of
                     Inl e \<Rightarrow> Inl e
                   | Inr nts \<Rightarrow> Inr ((name', conf) # nts))))"

text \<open>
  What the matching loop assigns to \<open>results[idx]\<close>: for a unit found in the response,
  \<open>norm_theories\<close>, \<open>mapping_reasoning\<close> and \<open>new_theory_keywords\<close> (and \<open>success = 1\<close>); for a
  unit not found, the error message (and \<open>success = 0\<close>). Both get the shares of the usage.
\<close>

datatype unit_update =
    Found "(string \<times> json) list option" string "json list"
  | NotFound string

text \<open>The per-paper shares: \<open>total // len(papers_batch)\<close> for the tokens, \<open>total_cost / len(papers_batch)\<close>.\<close>

record share =
  share_prompt_tokens :: int
  share_completion_tokens :: int
  tokens_per_paper :: int
  cost_per_paper :: rat

text \<open>\<open>calculate_cost\<close> of this module, with its rates per thousand tokens.\<close>

definition COST_PER_1K_PROMPT_TOKENS :: rat where "COST_PER_1K_PROMPT_TOKENS = 4 / 100000"
definition COST_PER_1K_COMPLETION_TOKENS :: rat where "COST_PER_1K_COMPLETION_TOKENS = 1 / 10000"

definition calculate_cost :: "int \<Rightarrow> int \<Rightarrow> rat" where
  "calculate_cost p c = (of_int p / 1000) * COST_PER_1K_PROMPT_TOKENS
                        + (of_int c / 1000) * COST_PER_1K_COMPLETION_TOKENS"

definition share_of :: "usage \<Rightarrow> nat \<Rightarrow> share" where
  "share_of u b =
     \<lparr> share_prompt_tokens = usage_prompt_tokens u div int b,
       share_completion_tokens = usage_completion_tokens u div int b,
       tokens_per_paper = usage_total_tokens u div int b,
       cost_per_paper = calculate_cost (usage_prompt_tokens u) (usage_completion_tokens u) / of_nat b \<rparr>"

definition with_share :: "share \<Rightarrow> norm_result \<Rightarrow> norm_result" where
  "with_share sh r = r\<lparr> prompt_tokens := share_prompt_tokens sh,
                        completion_tokens := share_completion_tokens sh,
                        total_tokens := tokens_per_paper sh,
                        cost_usd := cost_per_paper sh \<rparr>"

fun apply_update :: "share \<Rightarrow> unit_update \<Rightarrow> norm_result \<Rightarrow> norm_result" where
  "apply_update sh (Found nts reason keywords) r =
     (with_share sh (r\<lparr> norm_theories := nts, mapping_reasoning := Some reason,
                        new_theory_keywords := keywords \<rparr>))\<lparr> success := 1 \<rparr>"
| "apply_update sh (NotFound msg) r =
     with_share sh (r\<lparr> success := 0, error_message := Some msg \<rparr>)"

definition less_equal_sign :: string where
  "less_equal_sign = [CHR 0xE2, CHR 0x89, CHR 0xA4]"

text \<open>
  The end of the branch of a found unit: the list is built, \<open>None\<close> replaces an empty list,
  and keywords that are not a list are dropped.
\<close>

definition mapped :: "bool \<Rightarrow> (json \<Rightarrow> string) \<Rightarrow> json \<Rightarrow> string \<Rightarrow> string list \<Rightarrow> json list \<Rightarrow> json
                      \<Rightarrow> string + unit_update" where
  "mapped conservative repr theory key mapped_names confidences keywords =
     (case build_norm_theories conservative repr theory confidences 0 mapped_names of
        Inl e \<Rightarrow> Inl e
      | Inr nts \<Rightarrow>
          Inr (Found (if nts = [] then None else Some nts) (''Mapped from: '' @ key)
                     (case keywords of JList ks \<Rightarrow> ks | _ \<Rightarrow> [])))"

text \<open>
  The branch of the matching loop for a paper found in the response, up to the
  assignments: the validation of the matched \<open>result_item\<close>. \<open>Inl e\<close> is an exception
  raised before anything is assigned to \<open>results[idx]\<close>.
\<close>

definition validate_match :: "bool \<Rightarrow> ontology \<Rightarrow> (json \<Rightarrow> string) \<Rightarrow> json \<Rightarrow> string
                               \<Rightarrow> (string \<times> json) list \<Rightarrow> string + unit_update" where
  "validate_match conservative ont repr actual_theory actual_theory_str result_item =
     (let mapped_names = dict_get result_item ''mapped_names'';
          confidences = dict_get result_item ''confidence'';
          keywords = dict_get_default result_item ''keywords'' (JList [])
      in if mapped_names = JNull \<or> confidences = JNull
         then Inr (Found None (''No confident mapping for: '' @ actual_theory_str) [])
         else if conservative then
           (case filter_pairs (zip (str_names (as_list mapped_names)) (as_list confidences)) of
              Inl e \<Rightarrow> Inl e
            | Inr filtered_pairs \<Rightarrow>
                if filtered_pairs = []
                then Inr (Found None (''No high-confidence mapping (all '' @ less_equal_sign
                                       @ ''6) for: '' @ actual_theory_str) [])
                else
                  (let all_in_seed = list_all (in_seed ont) (map fst filtered_pairs);
                       some_in_seed = list_ex (in_seed ont) (map fst filtered_pairs)
                   in if some_in_seed \<and> \<not> all_in_seed
                      then Inr (Found None (''Mixed seed/non-seed theories (conservative mode) for: ''
                                             @ actual_theory_str) [])
                      else if \<not> all_in_seed
                      then Inr (Found None (''No seed ontology match (conservative mode) for: ''
                                             @ actual_theory_str) [])
                      else mapped conservative repr actual_theory actual_theory_str
                             (map fst filtered_pairs) (map snd filtered_pairs) keywords))
         else mapped conservative repr actual_theory actual_theory_str
                (str_names (as_list mapped_names)) (as_list confidences) keywords)"

text \<open>
  The body of the matching loop for one paper, up to the assignments: the lookup of the
  paper's key, then the validation of the item found or the message of the item missing.
\<close>

definition unit_outcome :: "bool \<Rightarrow> ontology \<Rightarrow> (json \<Rightarrow> string) \<Rightarrow> (string \<rightharpoonup> (string \<times> json) list)
                             \<Rightarrow> paper \<Rightarrow> string + unit_update" where
  "unit_outcome conservative ont repr llm_results_by_name p =
     (let actual_theory = paper_aging_theory p;
          actual_theory_str = normalize_theory_key repr actual_theory
      in case llm_results_by_name actual_theory_str of
           None \<Rightarrow> Inr (NotFound (''Theory not found in LLM response: '' @ actual_theory_str))
         | Some result_item \<Rightarrow>
             validate_match conservative ont repr actual_theory actual_theory_str result_item)"

text \<open>
  The matching loop \<open>for idx, paper in enumerate(papers_batch)\<close> on the list \<open>results\<close>: an
  exception leaves the assignments already made in place and the rest untouched.
\<close>

fun match_loop :: "(paper \<Rightarrow> string + unit_update) \<Rightarrow> share \<Rightarrow> paper list \<Rightarrow> norm_result list
                    \<Rightarrow> string option \<times> norm_result list" where
  "match_loop f sh [] rs = (None, rs)"
| "match_loop f sh (p # ps) [] = (Some ''list index out of range'', [])"
| "match_loop f sh (p # ps) (r # rs) =
     (case f p of
        Inl e \<Rightarrow> (Some e, r # rs)
      | Inr upd \<Rightarrow> (case match_loop f sh ps rs of (e, rs') \<Rightarrow> (e, apply_update sh upd r # rs')))"

text \<open>
  \<open>result_list\<close> as the loops see it: \<open>len\<close> raises on a value without length, and iterating
  over a text or a dictionary yields texts.
\<close>

fun iter_items :: "json \<Rightarrow> string + json list" where
  "iter_items (JList xs) = Inr xs"
| "iter_items (JStr s) = Inr (map (\<lambda>c. JStr [c]) s)"
| "iter_items (JObj kvs) = Inr (map (\<lambda>kv. JStr (fst kv)) kvs)"
| "iter_items v = Inl (''object of type '' @ quoted (type_name v) @ '' has no len()'')"

text \<open>
  The name-based lookup \<open>llm_results_by_name\<close>: each item is stored under the key of its
  \<open>initial_theory_name\<close>, a later item replacing an earlier one; \<open>result_item.get\<close> raises on
  an item that is no dictionary.
\<close>

fun build_lookup :: "(json \<Rightarrow> string) \<Rightarrow> json list \<Rightarrow> (string \<rightharpoonup> (string \<times> json) list)
                      \<Rightarrow> string + (string \<rightharpoonup> (string \<times> json) list)" where
  "build_lookup repr [] m = Inr m"
| "build_lookup repr (JObj result_item # items) m =
     build_lookup repr items
       (m(normalize_theory_key repr (dict_get_default result_item ''initial_theory_name'' (JStr [])) \<mapsto> result_item))"
| "build_lookup repr (v # items) m = Inl (attribute_error v ''get'')"

text \<open>
  The cleaning of the response text: \<open>strip()\<close>, and for a text that starts with three
  backquotes \<open>.strip("```json\n").strip("```\n").strip("```")\<close>.
\<close>

definition clean_response_text :: "string \<Rightarrow> string" where
  "clean_response_text content =
     (let response_text = py_strip content
      in if startswith response_text backquotes
         then py_strip_chars backquotes
                (py_strip_chars (backquotes @ [CHR 0x0A])
                   (py_strip_chars (backquotes @ ''json'' @ [CHR 0x0A]) response_text))
         else response_text)"

text \<open>
  The body of the \<open>try\<close> of one attempt on the list \<open>results\<close>: \<open>(None, rs)\<close> when it reaches
  \<open>return results\<close>, \<open>(Some e, rs)\<close> when it raises an exception with \<open>str(e) = e\<close>.
  The division by the batch size raises on an empty batch.
\<close>

definition try_batch :: "bool \<Rightarrow> ontology \<Rightarrow> (json \<Rightarrow> string) \<Rightarrow> (string \<Rightarrow> string + json) \<Rightarrow> api_outcome
                          \<Rightarrow> paper list \<Rightarrow> norm_result list \<Rightarrow> string option \<times> norm_result list" where
  "try_batch conservative ont repr loads outcome papers_batch rs =
     (case outcome of
        RateLimitError e \<Rightarrow> (Some e, rs)
      | ApiError e \<Rightarrow> (Some e, rs)
      | ApiResponse None u \<Rightarrow> (Some (attribute_error JNull ''strip''), rs)
      | ApiResponse (Some content) u \<Rightarrow>
          (case loads (clean_response_text content) of
             Inl e \<Rightarrow> (Some e, rs)
           | Inr batch_result \<Rightarrow>
               if papers_batch = [] then (Some ''integer division or modulo by zero'', rs)
               else
                 (case batch_result of
                    JObj batch_dict \<Rightarrow>
                      (case iter_items (dict_get_default batch_dict ''results'' (JList [])) of
                         Inl e \<Rightarrow> (Some e, rs)
                       | Inr result_list \<Rightarrow>
                           (case build_lookup repr result_list Map.empty of
                              Inl e \<Rightarrow> (Some e, rs)
                            | Inr llm_results_by_name \<Rightarrow>
                                match_loop (unit_outcome conservative ont repr llm_results_by_name)
                                  (share_of u (length papers_batch)) papers_batch rs))
                  | v \<Rightarrow> (Some (attribute_error v ''get''), rs))))"

text \<open>
  The loop \<open>while n < retries\<close>: \<open>left\<close> is the number of attempts left and \<open>k\<close> the index of
  the next call of the oracle. An exception is written into every result as its
  \<open>error_message\<close>; when no attempt is left every result gets \<open>success = 0\<close>.
\<close>

fun attempts :: "bool \<Rightarrow> ontology \<Rightarrow> (json \<Rightarrow> string) \<Rightarrow> (string \<Rightarrow> string + json) \<Rightarrow> (nat \<Rightarrow> api_outcome)
                  \<Rightarrow> paper list \<Rightarrow> nat \<Rightarrow> nat \<Rightarrow> norm_result list \<Rightarrow> norm_result list \<times> nat" where
  "attempts conservative ont repr loads api papers_batch 0 k rs =
     (map (\<lambda>r. r\<lparr> success := 0 \<rparr>) rs, k)"
| "attempts conservative ont repr loads api papers_batch (Suc left) k rs =
     (case try_batch conservative ont repr loads (api k) papers_batch rs of
        (None, rs') \<Rightarrow> (rs', Suc k)
      | (Some e, rs') \<Rightarrow>
          attempts conservative ont repr loads api papers_batch left (Suc k)
            (map (\<lambda>r. r\<lparr> error_message := Some e \<rparr>) rs'))"

text \<open>
  \<open>normalize_theory_batch(papers_batch, ontology, retries, conservative_mode)\<close>, with the
  oracle \<open>api\<close> read from call \<open>k\<close> on; it returns the results and the index of the next call.
  The prompt built before the loop does not enter the results; the files written for
  debugging and the two-second sleep between attempts are left out.
\<close>

definition normalize_theory_batch ::
  "(nat \<Rightarrow> api_outcome) \<Rightarrow> (string \<Rightarrow> string + json) \<Rightarrow> (json \<Rightarrow> string) \<Rightarrow> nat
   \<Rightarrow> paper list \<Rightarrow> ontology \<Rightarrow> int \<Rightarrow> bool \<Rightarrow> norm_result list \<times> nat" where
  "normalize_theory_batch api loads repr k papers_batch ont retries conservative =
     attempts conservative ont repr loads api papers_batch (nat retries) k (map init_result papers_batch)"

subsection \<open>The sequential pipeline\<close>

definition BATCH_SIZE :: nat where "BATCH_SIZE = 40"

text \<open>\<open>[xs[i:i + n] for i in range(0, len(xs), n)]\<close> for a positive \<open>n\<close>.\<close>

function chunks :: "nat \<Rightarrow> 'a list \<Rightarrow> 'a list list" where
  "chunks n xs = (if n = 0 \<or> xs = [] then [] else take n xs # chunks n (drop n xs))"
  by pat_completeness auto
termination
  by (relation "measure (\<lambda>(n, xs). length xs)") auto

declare chunks.simps [simp del]

text \<open>\<open>', '.join(keywords)\<close>: \<open>TypeError\<close> at the first item that is no text.\<close>

fun first_non_str :: "nat \<Rightarrow> json list \<Rightarrow> (nat \<times> json) option" where
  "first_non_str i [] = None"
| "first_non_str i (JStr s # vs) = first_non_str (Suc i) vs"
| "first_non_str i (v # vs) = Some (i, v)"

definition join_keywords :: "json list \<Rightarrow> string + string" where
  "join_keywords ks =
     (case first_non_str 0 ks of
        Some (i, v) \<Rightarrow> Inl (''sequence item '' @ str_nat i @ '': expected str instance, ''
                             @ type_name v @ '' found'')
      | None \<Rightarrow> Inr (py_join '', '' (str_names ks)))"

text \<open>
  The extraction of new theories from one result: for each match whose name starts with
  \<open>NEW_\<close> and whose clean name is no \<open>Theory Name\<close> of the working ontology, an entry is
  appended. \<open>kws\<close> is \<open>result.get('new_theory_keywords', [])\<close>. An exception \<open>(Some e, wo)\<close>
  leaves the entries appended so far in the working ontology.
\<close>

fun learn_matches :: "string \<Rightarrow> json list \<Rightarrow> (string \<times> json) list \<Rightarrow> ontology \<Rightarrow> string option \<times> ontology" where
  "learn_matches sub kws [] wo = (None, wo)"
| "learn_matches sub kws ((name, conf) # rest) wo =
     (if startswith name ''NEW_'' then
        (let clean_name = drop 4 name;
             existing = list_ex (\<lambda>t. theory_name t = clean_name) wo
         in if \<not> existing then
              (let keywords = (if kws = [] then [JStr (py_lower clean_name)] else kws)
               in case join_keywords (take 10 keywords) of
                    Inl e \<Rightarrow> (Some e, wo)
                  | Inr joined \<Rightarrow>
                      learn_matches sub kws rest
                        (wo @ [\<lparr> theory_name = clean_name, seed_keyword_list = keywords,
                                 theory_category = ''Emerging/Novel'', sub_category = sub,
                                 main_concepts = ''Novel theory: '' @ clean_name
                                                 @ ''. Key concepts: '' @ joined \<rparr>]))
            else learn_matches sub kws rest wo)
      else learn_matches sub kws rest wo)"

text \<open>The loop \<open>for result in batch_results\<close> around it: \<open>if result['success'] and result['norm_theories']\<close>.\<close>

fun learn_results :: "string \<Rightarrow> norm_result list \<Rightarrow> ontology \<Rightarrow> string option \<times> ontology" where
  "learn_results sub [] wo = (None, wo)"
| "learn_results sub (r # rs) wo =
     (case norm_theories r of
        Some (m # ms) \<Rightarrow>
          (if success r \<noteq> 0 then
             (case learn_matches sub (new_theory_keywords r) (m # ms) wo of
                (Some e, wo') \<Rightarrow> (Some e, wo')
              | (None, wo') \<Rightarrow> learn_results sub rs wo')
           else learn_results sub rs wo)
      | _ \<Rightarrow> learn_results sub rs wo)"

text \<open>
  The local state of \<open>normalize_theories_sequential\<close>: the list \<open>results\<close>, the working
  ontology, the index of the next call of the oracle, and (for the record) the ontology
  passed to each call of \<open>normalize_theory_batch\<close>, in order.
\<close>

record seq_state =
  results :: "norm_result list"
  working_ontology :: ontology
  next_call :: nat
  passed :: "ontology list"

text \<open>
  The main loop over the batches. Its body runs in a \<open>try\<close> whose handler only prints: an
  exception of the extraction drops the batch from \<open>results\<close> and keeps the entries
  already appended. Both modules set \<open>RETRIES = 3\<close>.
\<close>

fun main_pass :: "(nat \<Rightarrow> api_outcome) \<Rightarrow> (string \<Rightarrow> string + json) \<Rightarrow> (json \<Rightarrow> string) \<Rightarrow> ontology \<Rightarrow> bool
                   \<Rightarrow> paper list list \<Rightarrow> seq_state \<Rightarrow> seq_state" where
  "main_pass api loads repr ont conservative [] st = st"
| "main_pass api loads repr ont conservative (batch # batches) st =
     (let current_ontology = (if conservative then ont else working_ontology st)
      in case normalize_theory_batch api loads repr (next_call st) batch current_ontology RETRIES
                conservative of
           (batch_results, k) \<Rightarrow>
             (let st1 = st\<lparr> next_call := k, passed := passed st @ [current_ontology] \<rparr>
              in if \<not> conservative then
                   (case learn_results ''Discovered during normalization'' batch_results
                           (working_ontology st1) of
                      (Some e, wo) \<Rightarrow>
                        main_pass api loads repr ont conservative batches
                          (st1\<lparr> working_ontology := wo \<rparr>)
                    | (None, wo) \<Rightarrow>
                        main_pass api loads repr ont conservative batches
                          (st1\<lparr> working_ontology := wo, results := results st1 @ batch_results \<rparr>))
                 else main_pass api loads repr ont conservative batches
                        (st1\<lparr> results := results st1 @ batch_results \<rparr>)))"

text \<open>
  The retry loop over the batches of ten failed papers: each batch is normalized against
  the working ontology, and the extraction follows in either mode, outside any \<open>try\<close>.
  \<open>st\<close> carries the working ontology; the first component collects \<open>retry_results\<close>.
\<close>

fun retry_pass :: "(nat \<Rightarrow> api_outcome) \<Rightarrow> (string \<Rightarrow> string + json) \<Rightarrow> (json \<Rightarrow> string) \<Rightarrow> bool
                    \<Rightarrow> paper list list \<Rightarrow> norm_result list \<Rightarrow> seq_state
                    \<Rightarrow> string option \<times> norm_result list \<times> seq_state" where
  "retry_pass api loads repr conservative [] retry_results st = (None, retry_results, st)"
| "retry_pass api loads repr conservative (retry_batch # batches) retry_results st =
     (case normalize_theory_batch api loads repr (next_call st) retry_batch (working_ontology st)
             RETRIES conservative of
        (batch_results, k) \<Rightarrow>
          (let st1 = st\<lparr> next_call := k, passed := passed st @ [working_ontology st] \<rparr>
           in case learn_results ''Discovered during retry'' batch_results (working_ontology st1) of
                (Some e, wo) \<Rightarrow> (Some e, retry_results @ batch_results, st1\<lparr> working_ontology := wo \<rparr>)
              | (None, wo) \<Rightarrow>
                  retry_pass api loads repr conservative batches (retry_results @ batch_results)
                    (st1\<lparr> working_ontology := wo \<rparr>)))"

text \<open>\<open>retry_doi_map = {r['doi']: r for r in retry_results}\<close> and the replacement of the results it names.\<close>

definition retry_doi_map :: "norm_result list \<Rightarrow> (string \<rightharpoonup> norm_result)" where
  "retry_doi_map retry_results = map_of (rev (map (\<lambda>r. (doi r, r)) retry_results))"

definition update_with_retry :: "norm_result list \<Rightarrow> norm_result list \<Rightarrow> norm_result list" where
  "update_with_retry retry_results rs =
     map (\<lambda>r. case retry_doi_map retry_results (doi r) of
                 None \<Rightarrow> r
               | Some retry_data \<Rightarrow> retry_data\<lparr> retry_attempt := 1 \<rparr>) rs"

text \<open>
  \<open>normalize_theories_sequential(papers, ontology, conservative_mode)\<close>. The source returns
  the list \<open>results\<close> or raises; the model returns the exception, if any, and the whole
  local state at that point.
\<close>

definition normalize_theories_sequential ::
  "(nat \<Rightarrow> api_outcome) \<Rightarrow> (string \<Rightarrow> string + json) \<Rightarrow> (json \<Rightarrow> string)
   \<Rightarrow> paper list \<Rightarrow> ontology \<Rightarrow> bool \<Rightarrow> string option \<times> seq_state" where
  "normalize_theories_sequential api loads repr papers ont conservative =
     (let st = main_pass api loads repr ont conservative (chunks BATCH_SIZE papers)
                 \<lparr> results = [], working_ontology = ont, next_call = 0, passed = [] \<rparr>;
          failed_papers = filter (\<lambda>r. success r = 0) (results st)
      in if failed_papers = [] then (None, st)
         else
           (let failed_dois = set (map doi failed_papers);
                retry_papers = filter (\<lambda>p. paper_doi p \<in> failed_dois) papers
            in case retry_pass api loads repr conservative (chunks 10 retry_papers) [] st of
                 (Some e, retry_results, st') \<Rightarrow> (Some e, st')
               | (None, retry_results, st') \<Rightarrow>
                   (None, st'\<lparr> results := update_with_retry retry_results (results st') \<rparr>)))"

subsection \<open>Notions used to state the properties of the reconciler\<close>

text \<open>The exception of an attempt, if any: it depends on the response only, not on the results so far.\<close>

definition attempt_error :: "bool \<Rightarrow> ontology \<Rightarrow> (json \<Rightarrow> string) \<Rightarrow> (string \<Rightarrow> string + json) \<Rightarrow> api_outcome
                              \<Rightarrow> paper list \<Rightarrow> string option" where
  "attempt_error conservative ont repr loads outcome papers_batch =
     fst (try_batch conservative ont repr loads outcome papers_batch (map init_result papers_batch))"

text \<open>The normalized content key of an entry of the response.\<close>

definition item_key :: "(json \<Rightarrow> string) \<Rightarrow> (string \<times> json) list \<Rightarrow> string" where
  "item_key repr result_item =
     normalize_theory_key repr (dict_get_default result_item ''initial_theory_name'' (JStr []))"

text \<open>The entries of the response whose key is \<open>key\<close>, in the order of the response.\<close>

fun entries_for :: "(json \<Rightarrow> string) \<Rightarrow> string \<Rightarrow> json list \<Rightarrow> (string \<times> json) list list" where
  "entries_for repr key [] = []"
| "entries_for repr key (JObj result_item # items) =
     (if item_key repr result_item = key then result_item # entries_for repr key items
      else entries_for repr key items)"
| "entries_for repr key (v # items) = entries_for repr key items"






subsection \<open>Example data: a batch of five papers and a response of three entries\<close>

text \<open>An entry of the response, in the format the prompt asks for.\<close>

definition entry :: "string \<Rightarrow> string list \<Rightarrow> int list \<Rightarrow> json" where
  "entry t names confs = JObj [(''initial_theory_name'', JStr t), (''mapped_names'', JList (map JStr names)),
      (''confidence'', JList (map JInt confs)), (''keywords'', JList [])]"

definition ex_papers :: "paper list" where
  "ex_papers = [\<lparr> paper_doi = ''d1'', paper_aging_theory = JStr ''Free Radical Theory'' \<rparr>,
                \<lparr> paper_doi = ''d2'', paper_aging_theory = JStr ''telomere shortening'' \<rparr>,
                \<lparr> paper_doi = ''d3'', paper_aging_theory = JList [JStr ''Mitochondria'', JStr ''ROS''] \<rparr>,
                \<lparr> paper_doi = ''d4'', paper_aging_theory = JStr ''  inflammaging '' \<rparr>,
                \<lparr> paper_doi = ''d5'', paper_aging_theory = JStr ''quantum aging'' \<rparr>]"

text \<open>Three entries, in another order than the papers, two papers missing.\<close>

definition ex_items :: "json list" where
  "ex_items = [entry ''mitochondria, ros'' [''Mitochondrial Decline Theory''] [8],
      entry ''INFLAMMAGING'' [''Inflammaging Theory''] [9],
      entry ''free radical theory'' [''Free Radical Theory''] [9]]"

definition ex_response :: json where
  "ex_response = JObj [(''results'', JList ex_items)]"

definition ex_usage :: usage where
  "ex_usage = \<lparr> usage_prompt_tokens = 1003, usage_completion_tokens = 204, usage_total_tokens = 1209 \<rparr>"

definition ex_ontology :: ontology where
  "ex_ontology = map (\<lambda>n. \<lparr> theory_name = n, seed_keyword_list = [], theory_category = ''c'', sub_category = ''s'', main_concepts = ''m'' \<rparr>)
     [''Free Radical Theory'', ''Mitochondrial Decline Theory'', ''Inflammaging Theory'']"

definition ex_api :: "nat \<Rightarrow> api_outcome" where
  "ex_api k = ApiResponse (Some ''{}'') ex_usage"

definition ex_loads :: "string \<Rightarrow> string + json" where
  "ex_loads s = Inr ex_response"

definition ex_repr :: "json \<Rightarrow> string" where
  "ex_repr v = ''?''"

definition ex_loads_fail :: "string \<Rightarrow> string + json" where
  "ex_loads_fail s = Inl ''Expecting value''"

subsection \<open>Example data: eleven papers that fail in the main pass\<close>

text \<open>
  A seed ontology of one theory, eleven papers with the same theory text, and an oracle
  whose first response has no entry (so every paper fails in the main pass) and whose
  later responses map the text, with confidence 9, to the seed theory written in lower
  case behind the prefix \<open>NEW_\<close>.
\<close>

definition bug_seed :: ontology where
  "bug_seed = [\<lparr> theory_name = ''Free Radical Theory'', seed_keyword_list = [], theory_category = ''Damage'',
                 sub_category = ''Oxidative'', main_concepts = ''ROS damage'' \<rparr>]"

definition bug_papers :: "paper list" where
  "bug_papers = map (\<lambda>d. \<lparr> paper_doi = d, paper_aging_theory = JStr ''ros'' \<rparr>)
     [''d01'', ''d02'', ''d03'', ''d04'', ''d05'', ''d06'', ''d07'', ''d08'', ''d09'', ''d10'', ''d11'']"

definition bug_usage :: usage where
  "bug_usage = \<lparr> usage_prompt_tokens = 100, usage_completion_tokens = 10, usage_total_tokens = 110 \<rparr>"

definition bug_api :: "nat \<Rightarrow> api_outcome" where
  "bug_api k = (if k = 0 then ApiResponse (Some ''A'') bug_usage else ApiResponse (Some ''B'') bug_usage)"

definition bug_loads :: "string \<Rightarrow> string + json" where
  "bug_loads s = (if s = ''A'' then Inr (JObj [(''results'', JList [])])
                  else Inr (JObj [(''results'', JList [entry ''ros'' [''NEW_free radical theory''] [9]])]))"

text \<open>The entry the retry pass appends.\<close>

definition bug_entry :: ontology_entry where
  "bug_entry = \<lparr> theory_name = ''free radical theory'', seed_keyword_list = [JStr ''free radical theory''],
                  theory_category = ''Emerging/Novel'', sub_category = ''Discovered during retry'',
                  main_concepts = ''Novel theory: free radical theory. Key concepts: free radical theory'' \<rparr>"

text \<open>What is observed of a run: the exception, the success flags, the working ontology, the ontologies passed.\<close>

definition run_summary :: "string option \<times> seq_state \<Rightarrow> string option \<times> int list \<times> ontology \<times> ontology list" where
  "run_summary run = (fst run, map success (results (snd run)), working_ontology (snd run), passed (snd run))"

section \<open>Properties of the Work Unit Store\<close>

lemma doi_to_row: "doi (to_row r now) = doi r"
  by (simp add: to_row_def eval_result.extend_def)

lemma success_to_row: "success (to_row r now) = success r"
  by (simp add: to_row_def eval_result.extend_def)










lemma get_unprocessed_papers_no_limit:
  "get_unprocessed_papers None papers st
     = map to_paper_data (filter (\<lambda>p. \<not> has_row st p) (eligible_papers papers))"
  by (simp add: get_unprocessed_papers_def select_papers_def has_row_def eligible_papers_def)

lemma length_filter_not: "length (filter (\<lambda>x. \<not> P x) xs) = length xs - length (filter P xs)"
  using sum_length_filter_compl [of P xs] by simp

text \<open>
  Claim C1, as stated, fails: in the scenario of three eligible records of which \<open>doiA\<close> and
  \<open>doiC\<close> have successful rows and \<open>doiB\<close> a failed row (N = 3, K = 2), the pending set is
  empty and not the one key \<open>doiB\<close>: a failed row excludes its key as a successful one does.
\<close>

theorem get_unprocessed_papers_failed_row_counterexample:
  "length (eligible_papers ex_corpus) = 3 \<and> length (successful_rows ex_store) = 2
   \<and> length (failed_rows ex_store) = 1
   \<and> get_unprocessed_papers None ex_corpus ex_store = []"
  by (simp add: get_unprocessed_papers_no_limit eligible_papers_def ex_corpus_def ex_store_def
      successful_rows_def failed_rows_def has_row_def processed_dois_def doi_to_row
      success_to_row mk_result_def)

text \<open>
  Claim C1, amended. With no limit, \<open>get_unprocessed_papers\<close> returns, in corpus order, exactly
  the eligible records whose doi has no row at all in \<open>paper_evaluations\<close>, whatever the
  \<open>success\<close> flag of the row: with N eligible records of which M have a row, it returns N - M
  records, and the keys returned are the eligible keys minus the keys of all rows.
\<close>

theorem get_unprocessed_papers_excludes_every_row:
  "get_unprocessed_papers None papers st
     = map to_paper_data (filter (\<lambda>p. \<not> has_row st p) (eligible_papers papers))
   \<and> length (get_unprocessed_papers None papers st)
     = length (eligible_papers papers) - length (filter (has_row st) (eligible_papers papers))
   \<and> fst ` set (get_unprocessed_papers None papers st)
     = {d. \<exists>p \<in> set papers. eligible p \<and> src_doi p = Some d} - doi ` set st"
proof -
  have a: "fst ` set (get_unprocessed_papers None papers st)
     = {d. \<exists>p \<in> set papers. eligible p \<and> src_doi p = Some d} - doi ` set st"
    unfolding get_unprocessed_papers_no_limit eligible_papers_def has_row_def processed_dois_def
      to_paper_data_def
    by (auto simp: image_iff) force+
  show ?thesis using a by (simp add: get_unprocessed_papers_no_limit length_filter_not)
qed

theorem get_unprocessed_papers_excludes_every_row_witness:
  "get_unprocessed_papers None ex_corpus ex_store_failed
     = [(''doiA'', None, ''tA'', ''aA''), (''doiC'', None, ''tC'', ''aC'')]
   \<and> length (filter (has_row ex_store_failed) (eligible_papers ex_corpus)) = 1"
  using get_unprocessed_papers_excludes_every_row [of ex_corpus ex_store_failed]
  by (simp add: eligible_papers_def ex_corpus_def ex_store_failed_def has_row_def
      processed_dois_def doi_to_row mk_result_def to_paper_data_def)

section \<open>Properties of the Judge Client\<close>

lemma rate_limit_loop:
  assumes rl: "\<And>k. int k < retries \<Longrightarrow> api k = RateLimitError (msg k)"
  shows "int n < retries \<Longrightarrow>
    llm_judge_loop api loads rnd retries n t
      = (Inl (''Rate limit exceeded after '' @ str_int retries @ '' retries: '' @ msg (nat retries - 1)),
         \<lparr> calls = calls t + (nat retries - n),
           sleeps = sleeps t @ map (rate_limit_wait rnd) [Suc n..<nat retries] \<rparr>)"
proof (induction "nat retries - n" arbitrary: n t)
  case 0
  then show ?case by linarith
next
  case (Suc d)
  have api: "api n = RateLimitError (msg n)" using rl Suc.prems by simp
  show ?case
  proof (cases "int (Suc n) < retries")
    case True
    have d: "d = nat retries - Suc n" using Suc.hyps(2) by linarith
    have up: "[Suc n..<nat retries] = Suc n # [Suc (Suc n)..<nat retries]"
      using True by (simp add: upt_conv_Cons)
    from Suc.hyps(1) [OF d True] True Suc.prems api up show ?thesis
      by (subst llm_judge_loop.simps)
         (simp add: add_sleep_def add_call_def rate_limit_wait_def Let_def)
  next
    case False
    then have last: "nat retries = Suc n" using Suc.prems by linarith
    with False Suc.prems api show ?thesis
      by (subst llm_judge_loop.simps) (simp add: add_call_def Let_def)
  qed
qed

lemma calls_loop_le:
  "calls (snd (llm_judge_loop api loads rnd retries n t)) \<le> calls t + (nat retries - n)"
proof (induction api loads rnd retries n t rule: llm_judge_loop.induct)
  case (1 api loads rnd retries n t)
  show ?case
  proof (cases "int n < retries")
    case False
    then show ?thesis by (subst llm_judge_loop.simps) simp
  next
    case True
    note lt = this
    show ?thesis
    proof (cases "int (Suc n) < retries")
      case False
      with lt show ?thesis
        by (subst llm_judge_loop.simps)
           (auto simp: add_call_def add_sleep_def Let_def split: attempt_result.splits)
    next
      case True
      have step: "Suc (calls t) + (nat retries - Suc n) = calls t + (nat retries - n)"
        using True by linarith
      show ?thesis
      proof (cases "judge_attempt loads (api n)")
        case (RateLimited e)
        from 1(1) [OF lt RateLimited refl True] lt True RateLimited step show ?thesis
          by (subst llm_judge_loop.simps) (simp add: add_call_def add_sleep_def Let_def)
      next
        case (DecodeFailed e)
        from 1(2) [OF lt DecodeFailed True] lt True DecodeFailed step show ?thesis
          by (subst llm_judge_loop.simps) (simp add: add_call_def add_sleep_def Let_def)
      next
        case (OtherFailed e)
        from 1(3) [OF lt OtherFailed refl True] lt True OtherFailed step show ?thesis
          by (subst llm_judge_loop.simps) (simp add: add_call_def add_sleep_def Let_def)
      next
        case (Judged v)
        with lt True show ?thesis
          by (subst llm_judge_loop.simps) (simp add: add_call_def add_sleep_def Let_def)
      qed
    qed
  qed
qed

lemma rate_limit_wait_mono:
  assumes "0 \<le> rnd n" "rnd (n - 1) \<le> 1 / 2" "0 < n"
  shows "rate_limit_wait rnd n < rate_limit_wait rnd (Suc n)"
proof -
  obtain m where m: "n = Suc m" using assms(3) by (cases n) auto
  define x :: rat where "x = 2 ^ m"
  have "1 \<le> x" by (simp add: x_def)
  then have "(3 / 2) * x + rnd m < (3 / 2) * (2 * x) + rnd (Suc m)"
    using assms(1,2) m by simp
  then show ?thesis using m by (simp add: rate_limit_wait_def RATE_LIMIT_WAIT_def x_def)
qed

lemma waits_increase:
  assumes "\<And>k. 0 \<le> rnd k \<and> rnd k \<le> 1 / 2"
  shows "sorted_wrt (<) (map (rate_limit_wait rnd) [Suc a..<b])"
proof -
  have step: "\<And>n. 0 < n \<Longrightarrow> rate_limit_wait rnd n < rate_limit_wait rnd (Suc n)"
    using assms rate_limit_wait_mono by blast
  have mono: "\<And>i j. 0 < i \<Longrightarrow> i < j \<Longrightarrow> rate_limit_wait rnd i < rate_limit_wait rnd j"
  proof -
    fix i j :: nat assume "0 < i" "i < j"
    then show "rate_limit_wait rnd i < rate_limit_wait rnd j"
    proof (induction j)
      case 0 then show ?case by simp
    next
      case (Suc j)
      show ?case
      proof (cases "i = j")
        case True with step Suc.prems show ?thesis by simp
      next
        case False
        with Suc have "rate_limit_wait rnd i < rate_limit_wait rnd j" by simp
        also have "\<dots> < rate_limit_wait rnd (Suc j)" using step Suc.prems False by simp
        finally show ?thesis .
      qed
    qed
  qed
  show ?thesis
    by (simp add: sorted_wrt_map sorted_wrt_iff_nth_less mono)
qed


text \<open>
  Claim C6. When every call of the oracle raises \<open>RateLimitError\<close>, \<open>llm_judge\<close> with a
  positive bound \<open>retries\<close> (the default is \<open>RETRIES\<close>) makes exactly \<open>retries\<close> calls,
  sleeps \<open>RATE_LIMIT_WAIT * 2^(n-1)\<close> plus the jitter between attempts \<open>n\<close> and \<open>n+1\<close>,
  and then raises an exception whose message ends with the message of the last error.
  With a jitter between 0 and 0.5 the waits strictly increase, and whatever the oracle
  does, no more than \<open>retries\<close> calls are made.
\<close>

theorem llm_judge_rate_limit_retries:
  assumes pos: "0 < retries"
      and rl: "\<And>k. int k < retries \<Longrightarrow> api k = RateLimitError (msg k)"
  shows "llm_judge api loads rnd retries
           = (Inl (''Rate limit exceeded after '' @ str_int retries @ '' retries: ''
                   @ msg (nat retries - 1)),
              \<lparr> calls = nat retries, sleeps = map (rate_limit_wait rnd) [1..<nat retries] \<rparr>)
         \<and> ((\<forall>k. 0 \<le> rnd k \<and> rnd k \<le> 1 / 2)
              \<longrightarrow> sorted_wrt (<) (map (rate_limit_wait rnd) [1..<nat retries]))
         \<and> (\<forall>api'. calls (snd (llm_judge api' loads rnd retries)) \<le> nat retries)"
proof -
  have "int 0 < retries" using pos by simp
  from rate_limit_loop [of retries api msg 0 loads rnd "\<lparr> calls = 0, sleeps = [] \<rparr>", OF rl this]
  have a: "llm_judge api loads rnd retries
           = (Inl (''Rate limit exceeded after '' @ str_int retries @ '' retries: ''
                   @ msg (nat retries - 1)),
              \<lparr> calls = nat retries, sleeps = map (rate_limit_wait rnd) [1..<nat retries] \<rparr>)"
    by (simp add: llm_judge_def)
  have b: "(\<forall>k. 0 \<le> rnd k \<and> rnd k \<le> 1 / 2)
              \<longrightarrow> sorted_wrt (<) (map (rate_limit_wait rnd) [1..<nat retries])"
    using waits_increase [of rnd 0 "nat retries"] by simp
  have c: "\<forall>api'. calls (snd (llm_judge api' loads rnd retries)) \<le> nat retries"
    using calls_loop_le [of _ loads rnd retries 0 "\<lparr> calls = 0, sleeps = [] \<rparr>"]
    by (simp add: llm_judge_def)
  from a b c show ?thesis by blast
qed

lemma str_int_3: "str_int 3 = ''3''"
  by code_simp

theorem llm_judge_rate_limit_retries_witness:
  "0 < RETRIES \<and> llm_judge (\<lambda>k. RateLimitError ''429'') (\<lambda>s. Inl ''x'') (\<lambda>k. 1 / 4) RETRIES
     = (Inl ''Rate limit exceeded after 3 retries: 429'', \<lparr> calls = 3, sleeps = [7 / 4, 13 / 4] \<rparr>)"
proof -
  have pos: "0 < RETRIES" by (simp add: RETRIES_def)
  have up: "[Suc 0..<3] = [1, 2]" by (simp add: upt_conv_Cons)
  from llm_judge_rate_limit_retries [of RETRIES "\<lambda>k. RateLimitError ''429''" "\<lambda>k. ''429''", OF pos refl]
  show ?thesis
    by (simp add: RETRIES_def str_int_3 up rate_limit_wait_def RATE_LIMIT_WAIT_def)
qed






section \<open>Properties of the run entry\<close>






section \<open>Properties of the Batch Reconciler\<close>

lemma doi_with_share [simp]: "doi (with_share sh r) = doi r"
  and initial_theory_with_share [simp]: "initial_theory (with_share sh r) = initial_theory r"
  and success_with_share [simp]: "success (with_share sh r) = success r"
  and error_message_with_share [simp]: "error_message (with_share sh r) = error_message r"
  and norm_theories_with_share [simp]: "norm_theories (with_share sh r) = norm_theories r"
  and mapping_reasoning_with_share [simp]: "mapping_reasoning (with_share sh r) = mapping_reasoning r"
  and new_theory_keywords_with_share [simp]: "new_theory_keywords (with_share sh r) = new_theory_keywords r"
  and prompt_tokens_with_share [simp]: "prompt_tokens (with_share sh r) = share_prompt_tokens sh"
  and completion_tokens_with_share [simp]: "completion_tokens (with_share sh r) = share_completion_tokens sh"
  and total_tokens_with_share [simp]: "total_tokens (with_share sh r) = tokens_per_paper sh"
  and cost_usd_with_share [simp]: "cost_usd (with_share sh r) = cost_per_paper sh"
  by (simp_all add: with_share_def)

lemma apply_update_keeps [simp]:
  "doi (apply_update sh upd r) = doi r"
  "initial_theory (apply_update sh upd r) = initial_theory r"
  "prompt_tokens (apply_update sh upd r) = share_prompt_tokens sh"
  "completion_tokens (apply_update sh upd r) = share_completion_tokens sh"
  "total_tokens (apply_update sh upd r) = tokens_per_paper sh"
  "cost_usd (apply_update sh upd r) = cost_per_paper sh"
  by (cases upd; simp)+

lemma success_apply_update: "success (apply_update sh upd r) = (case upd of Found a b c \<Rightarrow> 1 | NotFound m \<Rightarrow> 0)"
  by (cases upd) simp_all

text \<open>The matching loop keeps the length of the list and the doi and theory of each result.\<close>

lemma match_loop_length_eq:
  "length rs = length ps \<Longrightarrow> length (snd (match_loop f sh ps rs)) = length ps"
  by (induction f sh ps rs rule: match_loop.induct) (auto split: sum.splits prod.splits)

lemma match_loop_doi:
  "map doi (snd (match_loop f sh ps rs)) = map doi rs"
  by (induction f sh ps rs rule: match_loop.induct) (auto split: sum.splits prod.splits)

lemma match_loop_initial_theory:
  "map initial_theory (snd (match_loop f sh ps rs)) = map initial_theory rs"
  by (induction f sh ps rs rule: match_loop.induct) (auto split: sum.splits prod.splits)

lemma match_loop_error_indep:
  "length rs = length ps \<Longrightarrow> length rs2 = length ps
     \<Longrightarrow> fst (match_loop f sh ps rs) = fst (match_loop f sh ps rs2)"
proof (induction ps arbitrary: rs rs2)
  case Nil
  then show ?case by simp
next
  case (Cons p ps)
  from Cons.prems obtain r rs' r2 rs2' where rs: "rs = r # rs'" "rs2 = r2 # rs2'"
    by (cases rs; cases rs2) auto
  with Cons.prems have l: "length rs' = length ps" "length rs2' = length ps" by auto
  show ?case
  proof (cases "f p")
    case (Inl e)
    with rs show ?thesis by simp
  next
    case (Inr upd)
    have "fst (match_loop f sh (p # ps) rs) = fst (match_loop f sh ps rs')"
      using Inr rs by (simp split: prod.splits)
    moreover have "fst (match_loop f sh (p # ps) rs2) = fst (match_loop f sh ps rs2')"
      using Inr rs by (simp split: prod.splits)
    ultimately show ?thesis using Cons.IH [OF l] by simp
  qed
qed

lemma match_loop_complete:
  "length rs = length ps \<Longrightarrow> match_loop f sh ps rs = (None, rs') \<Longrightarrow> i < length ps
     \<Longrightarrow> \<exists>upd. f (ps ! i) = Inr upd \<and> rs' ! i = apply_update sh upd (rs ! i)"
proof (induction ps arbitrary: rs rs' i)
  case Nil
  then show ?case by simp
next
  case (Cons p ps)
  from Cons.prems(1) obtain r rt where rs: "rs = r # rt" by (cases rs) auto
  from Cons.prems(2) rs obtain upd where f: "f p = Inr upd"
    by (cases "f p") auto
  obtain e rt' where m0: "match_loop f sh ps rt = (e, rt')" by (cases "match_loop f sh ps rt")
  with Cons.prems(2) rs f have m: "match_loop f sh ps rt = (None, rt')"
    and r': "rs' = apply_update sh upd r # rt'" by auto
  show ?case
  proof (cases i)
    case 0
    with f r' rs show ?thesis by simp
  next
    case (Suc j)
    with Cons.prems rs have "j < length ps" "length rt = length ps" by auto
    from Cons.IH [OF this(2) m this(1)] Suc r' rs show ?thesis by simp
  qed
qed


lemma match_loop_length: "length (snd (match_loop f sh ps rs)) = length rs"
  using match_loop_doi [of f sh ps rs] by (metis length_map)

lemma try_batch_doi:
  "map doi (snd (try_batch conservative ont repr loads outcome papers rs)) = map doi rs"
  by (simp add: try_batch_def match_loop_doi
      split: api_outcome.splits option.splits sum.splits json.splits)

lemma try_batch_initial_theory:
  "map initial_theory (snd (try_batch conservative ont repr loads outcome papers rs))
     = map initial_theory rs"
  by (simp add: try_batch_def match_loop_initial_theory
      split: api_outcome.splits option.splits sum.splits json.splits)

lemma try_batch_length:
  "length (snd (try_batch conservative ont repr loads outcome papers rs)) = length rs"
  using try_batch_doi [of conservative ont repr loads outcome papers rs] by (metis length_map)

lemma try_batch_error_indep:
  assumes "length rs = length papers"
  shows "fst (try_batch conservative ont repr loads outcome papers rs)
           = attempt_error conservative ont repr loads outcome papers"
proof -
  have "\<And>f sh. fst (match_loop f sh papers rs) = fst (match_loop f sh papers (map init_result papers))"
    using assms by (intro match_loop_error_indep) simp_all
  then show ?thesis
    by (simp add: attempt_error_def try_batch_def
        split: api_outcome.splits option.splits sum.splits json.splits)
qed

lemma try_batch_complete:
  assumes "try_batch conservative ont repr loads outcome papers rs = (None, rs')"
  shows "\<exists>content u d items m.
           outcome = ApiResponse (Some content) u
           \<and> loads (clean_response_text content) = Inr (JObj d)
           \<and> iter_items (dict_get_default d ''results'' (JList [])) = Inr items
           \<and> build_lookup repr items Map.empty = Inr m
           \<and> papers \<noteq> []
           \<and> match_loop (unit_outcome conservative ont repr m) (share_of u (length papers)) papers rs
               = (None, rs')"
  using assms
  by (auto simp: try_batch_def
      split: api_outcome.splits option.splits sum.splits json.splits if_splits)

lemma attempts_doi:
  "map doi (fst (attempts conservative ont repr loads api papers left k rs)) = map doi rs"
proof (induction left arbitrary: k rs)
  case 0
  show ?case by (simp add: comp_def)
next
  case (Suc left)
  obtain e rs' where t: "try_batch conservative ont repr loads (api k) papers rs = (e, rs')"
    by (cases "try_batch conservative ont repr loads (api k) papers rs")
  have d: "map doi rs' = map doi rs"
    using try_batch_doi [of conservative ont repr loads "api k" papers rs] t by simp
  show ?case
  proof (cases e)
    case None
    with t d show ?thesis by simp
  next
    case (Some m)
    have "map doi (map (\<lambda>r. r\<lparr> error_message := Some m \<rparr>) rs') = map doi rs'"
      by (simp add: comp_def)
    with Suc.IH [of "Suc k" "map (\<lambda>r. r\<lparr> error_message := Some m \<rparr>) rs'"] t d Some
    show ?thesis by simp
  qed
qed

lemma attempts_initial_theory:
  "map initial_theory (fst (attempts conservative ont repr loads api papers left k rs))
     = map initial_theory rs"
proof (induction left arbitrary: k rs)
  case 0
  show ?case by (simp add: comp_def)
next
  case (Suc left)
  obtain e rs' where t: "try_batch conservative ont repr loads (api k) papers rs = (e, rs')"
    by (cases "try_batch conservative ont repr loads (api k) papers rs")
  have d: "map initial_theory rs' = map initial_theory rs"
    using try_batch_initial_theory [of conservative ont repr loads "api k" papers rs] t by simp
  show ?case
  proof (cases e)
    case None
    with t d show ?thesis by simp
  next
    case (Some m)
    have "map initial_theory (map (\<lambda>r. r\<lparr> error_message := Some m \<rparr>) rs') = map initial_theory rs'"
      by (simp add: comp_def)
    with Suc.IH [of "Suc k" "map (\<lambda>r. r\<lparr> error_message := Some m \<rparr>) rs'"] t d Some
    show ?thesis by simp
  qed
qed

lemma attempts_length:
  "length (fst (attempts conservative ont repr loads api papers left k rs)) = length rs"
  using attempts_doi [of conservative ont repr loads api papers left k rs] by (metis length_map)

lemma completed_success:
  assumes len: "length rs = length papers"
      and t: "try_batch conservative ont repr loads outcome papers rs = (None, rs')"
      and r: "r \<in> set rs'"
  shows "success r = 0 \<or> success r = 1"
proof -
  from try_batch_complete [OF t] obtain u m where
    m: "match_loop (unit_outcome conservative ont repr m) (share_of u (length papers)) papers rs = (None, rs')"
    by blast
  have l': "length rs' = length papers"
    using match_loop_length [of "unit_outcome conservative ont repr m" "share_of u (length papers)" papers rs]
      m len by simp
  from r obtain i where i: "i < length rs'" "rs' ! i = r" by (auto simp: in_set_conv_nth)
  with l' have "i < length papers" by simp
  from match_loop_complete [OF len m this] i obtain upd where
    "r = apply_update (share_of u (length papers)) upd (rs ! i)" by auto
  then show ?thesis by (cases upd) simp_all
qed

lemma attempts_success:
  "length rs = length papers
     \<Longrightarrow> r \<in> set (fst (attempts conservative ont repr loads api papers left k rs))
     \<Longrightarrow> success r = 0 \<or> success r = 1"
proof (induction left arbitrary: k rs)
  case 0
  then show ?case by auto
next
  case (Suc left)
  obtain e rs' where t: "try_batch conservative ont repr loads (api k) papers rs = (e, rs')"
    by (cases "try_batch conservative ont repr loads (api k) papers rs")
  have l: "length rs' = length papers"
    using try_batch_length [of conservative ont repr loads "api k" papers rs] t Suc.prems(1) by simp
  show ?case
  proof (cases e)
    case None
    with t Suc.prems(2) have "r \<in> set rs'" by simp
    from completed_success [OF Suc.prems(1) t [unfolded None] this] show ?thesis .
  next
    case (Some m)
    let ?rs = "map (\<lambda>r. r\<lparr> error_message := Some m \<rparr>) rs'"
    have "length ?rs = length papers" using l by simp
    moreover have "r \<in> set (fst (attempts conservative ont repr loads api papers left (Suc k) ?rs))"
      using Suc.prems(2) t Some by simp
    ultimately show ?thesis by (rule Suc.IH)
  qed
qed

text \<open>All attempts raise: every result is failed and carries the last message.\<close>

lemma attempts_exhausted:
  assumes raises: "\<And>j. j < left \<Longrightarrow> attempt_error conservative ont repr loads (api (k + j)) papers = Some (e j)"
      and len: "length rs = length papers"
  shows "snd (attempts conservative ont repr loads api papers left k rs) = k + left
         \<and> (\<forall>r \<in> set (fst (attempts conservative ont repr loads api papers left k rs)).
               success r = 0 \<and> (0 < left \<longrightarrow> error_message r = Some (e (left - 1))))"
  using raises len
proof (induction left arbitrary: k rs e)
  case 0
  then show ?case by auto
next
  case (Suc left)
  obtain x rs' where t: "try_batch conservative ont repr loads (api k) papers rs = (x, rs')"
    by (cases "try_batch conservative ont repr loads (api k) papers rs")
  have x: "x = Some (e 0)"
    using try_batch_error_indep [OF Suc.prems(2), of conservative ont repr loads "api k"]
      Suc.prems(1) [of 0] t by simp
  have l: "length rs' = length papers"
    using try_batch_length [of conservative ont repr loads "api k" papers rs] t Suc.prems(2) by simp
  let ?rs = "map (\<lambda>r. r\<lparr> error_message := Some (e 0) \<rparr>) rs'"
  have step: "attempts conservative ont repr loads api papers (Suc left) k rs
               = attempts conservative ont repr loads api papers left (Suc k) ?rs"
    using t x by simp
  have l2: "length ?rs = length papers" using l by simp
  have r2: "\<And>j. j < left \<Longrightarrow>
              attempt_error conservative ont repr loads (api (Suc k + j)) papers = Some (e (Suc j))"
    using Suc.prems(1) [of "Suc j" for j] by simp
  from Suc.IH [of "Suc k" "\<lambda>j. e (Suc j)" ?rs, OF r2 l2]
  have ih: "snd (attempts conservative ont repr loads api papers left (Suc k) ?rs) = Suc k + left"
    "\<forall>r \<in> set (fst (attempts conservative ont repr loads api papers left (Suc k) ?rs)).
        success r = 0 \<and> (0 < left \<longrightarrow> error_message r = Some (e (Suc (left - 1))))"
    by auto
  show ?case
  proof (cases left)
    case 0
    then show ?thesis using step by (auto simp: comp_def)
  next
    case (Suc n)
    with ih step show ?thesis by auto
  qed
qed

text \<open>The first attempt that raises nothing gives the returned list.\<close>

lemma attempts_completed:
  assumes before: "\<And>i. i < j \<Longrightarrow> attempt_error conservative ont repr loads (api (k + i)) papers \<noteq> None"
      and at: "attempt_error conservative ont repr loads (api (k + j)) papers = None"
      and j: "j < left"
      and len: "length rs = length papers"
  shows "\<exists>rs0. length rs0 = length papers
           \<and> try_batch conservative ont repr loads (api (k + j)) papers rs0
                = (None, fst (attempts conservative ont repr loads api papers left k rs))
           \<and> snd (attempts conservative ont repr loads api papers left k rs) = Suc (k + j)"
  using before at j len
proof (induction j arbitrary: k rs left)
  case 0
  then obtain n where left: "left = Suc n" by (cases left) auto
  obtain x rs' where t: "try_batch conservative ont repr loads (api k) papers rs = (x, rs')"
    by (cases "try_batch conservative ont repr loads (api k) papers rs")
  have "x = None"
    using try_batch_error_indep [OF "0.prems"(4), of conservative ont repr loads "api k"]
      "0.prems"(2) t by simp
  with t left "0.prems"(4) show ?case by (intro exI [of _ rs]) simp
next
  case (Suc j)
  then obtain n where left: "left = Suc n" by (cases left) auto
  obtain x rs' where t: "try_batch conservative ont repr loads (api k) papers rs = (x, rs')"
    by (cases "try_batch conservative ont repr loads (api k) papers rs")
  have "x \<noteq> None"
    using try_batch_error_indep [OF Suc.prems(4), of conservative ont repr loads "api k"]
      Suc.prems(1) [of 0] t by simp
  then obtain m where x: "x = Some m" by auto
  have l: "length rs' = length papers"
    using try_batch_length [of conservative ont repr loads "api k" papers rs] t Suc.prems(4) by simp
  let ?rs = "map (\<lambda>r. r\<lparr> error_message := Some m \<rparr>) rs'"
  have step: "attempts conservative ont repr loads api papers left k rs
               = attempts conservative ont repr loads api papers n (Suc k) ?rs"
    using t x left by simp
  have b: "\<And>i. i < j \<Longrightarrow> attempt_error conservative ont repr loads (api (Suc k + i)) papers \<noteq> None"
    using Suc.prems(1) [of "Suc i" for i] by simp
  have a: "attempt_error conservative ont repr loads (api (Suc k + j)) papers = None"
    using Suc.prems(2) by simp
  have jn: "j < n" using Suc.prems(3) left by simp
  have l2: "length ?rs = length papers" using l by simp
  from Suc.IH [OF b a jn l2] step show ?case by simp
qed

lemma build_lookup_entries:
  "build_lookup repr items m0 = Inr m \<Longrightarrow>
     m key = (case entries_for repr key items of [] \<Rightarrow> m0 key | e # es \<Rightarrow> Some (last (e # es)))"
proof (induction repr items m0 arbitrary: m rule: build_lookup.induct)
  case (1 repr m0)
  then show ?case by simp
next
  case (2 repr result_item items m0)
  let ?m1 = "m0(normalize_theory_key repr (dict_get_default result_item ''initial_theory_name'' (JStr [])) \<mapsto> result_item)"
  from "2.prems" have b: "build_lookup repr items ?m1 = Inr m" by simp
  from "2.IH" [OF b] show ?case
    by (cases "entries_for repr key items") (auto simp: item_key_def)
qed simp_all

lemma sum_list_const:
  fixes f :: "'a \<Rightarrow> 'b::comm_semiring_1"
  shows "(\<And>r. r \<in> set rs \<Longrightarrow> f r = c) \<Longrightarrow> sum_list (map f rs) = of_nat (length rs) * c"
  by (induction rs) (simp_all add: algebra_simps)

text \<open>What a completed attempt leaves in each result.\<close>

lemma completed_unit:
  assumes len: "length rs = length papers"
      and t: "try_batch conservative ont repr loads (ApiResponse (Some content) u) papers rs = (None, rs')"
      and parsed: "loads (clean_response_text content) = Inr (JObj d)"
      and items: "iter_items (dict_get_default d ''results'' (JList [])) = Inr items"
      and idx: "idx < length papers"
  shows "\<exists>m upd. build_lookup repr items Map.empty = Inr m
           \<and> unit_outcome conservative ont repr m (papers ! idx) = Inr upd
           \<and> rs' ! idx = apply_update (share_of u (length papers)) upd (rs ! idx)"
proof -
  from try_batch_complete [OF t] parsed items obtain m where
    m: "build_lookup repr items Map.empty = Inr m"
    and ml: "match_loop (unit_outcome conservative ont repr m) (share_of u (length papers)) papers rs = (None, rs')"
    by auto
  from match_loop_complete [OF len ml idx] m show ?thesis by blast
qed

lemma batch_completed:
  assumes before: "\<And>i. i < j \<Longrightarrow> attempt_error conservative ont repr loads (api (k + i)) papers \<noteq> None"
      and at: "attempt_error conservative ont repr loads (api (k + j)) papers = None"
      and j: "int j < retries"
  shows "\<exists>rs0. length rs0 = length papers
           \<and> try_batch conservative ont repr loads (api (k + j)) papers rs0
                = (None, fst (normalize_theory_batch api loads repr k papers ont retries conservative))
           \<and> snd (normalize_theory_batch api loads repr k papers ont retries conservative) = Suc (k + j)"
proof -
  have jn: "j < nat retries" using j by linarith
  have l: "length (map init_result papers) = length papers" by simp
  from attempts_completed [where api = api and k = k and j = j and conservative = conservative
      and ont = ont and repr = repr and loads = loads and papers = papers and left = "nat retries"
      and rs = "map init_result papers", OF before at jn l]
  show ?thesis
    by (simp add: normalize_theory_batch_def)
qed

text \<open>
  Claim C9. \<open>normalize_theory_batch\<close> is total on its unit list: whatever the oracle does,
  the returned list has one record per paper, in the order of the papers, the \<open>i\<close>-th
  carrying the \<open>i\<close>-th paper's doi and theory, each with a success flag of 0 or 1; when
  every attempt raises (a response that does not parse, for one), every record has
  \<open>success = 0\<close> and the message of the last exception.
\<close>

theorem normalize_theory_batch_total:
  "length (fst (normalize_theory_batch api loads repr k papers ont retries conservative)) = length papers
   \<and> map doi (fst (normalize_theory_batch api loads repr k papers ont retries conservative))
       = map paper_doi papers
   \<and> map initial_theory (fst (normalize_theory_batch api loads repr k papers ont retries conservative))
       = map paper_aging_theory papers
   \<and> (\<forall>r \<in> set (fst (normalize_theory_batch api loads repr k papers ont retries conservative)).
         success r = 0 \<or> success r = 1)
   \<and> ((\<forall>j. int j < retries
             \<longrightarrow> attempt_error conservative ont repr loads (api (k + j)) papers = Some (e j))
        \<longrightarrow> (\<forall>r \<in> set (fst (normalize_theory_batch api loads repr k papers ont retries conservative)).
               success r = 0 \<and> (0 < retries \<longrightarrow> error_message r = Some (e (nat retries - 1)))))"
proof -
  let ?rs = "fst (normalize_theory_batch api loads repr k papers ont retries conservative)"
  have d: "map doi ?rs = map paper_doi papers"
    using attempts_doi [of conservative ont repr loads api papers "nat retries" k "map init_result papers"]
    by (simp add: normalize_theory_batch_def comp_def init_result_def)
  have t: "map initial_theory ?rs = map paper_aging_theory papers"
    using attempts_initial_theory [of conservative ont repr loads api papers "nat retries" k
        "map init_result papers"]
    by (simp add: normalize_theory_batch_def comp_def init_result_def)
  have l: "length ?rs = length papers"
    using d by (metis length_map)
  have s: "\<forall>r \<in> set ?rs. success r = 0 \<or> success r = 1"
    using attempts_success [of "map init_result papers" papers _ conservative ont repr loads api
        "nat retries" k]
    by (simp add: normalize_theory_batch_def)
  have x: "(\<forall>j. int j < retries
             \<longrightarrow> attempt_error conservative ont repr loads (api (k + j)) papers = Some (e j))
        \<longrightarrow> (\<forall>r \<in> set ?rs. success r = 0 \<and> (0 < retries \<longrightarrow> error_message r = Some (e (nat retries - 1))))"
  proof
    assume a: "\<forall>j. int j < retries
             \<longrightarrow> attempt_error conservative ont repr loads (api (k + j)) papers = Some (e j)"
    have r: "\<And>j. j < nat retries
             \<Longrightarrow> attempt_error conservative ont repr loads (api (k + j)) papers = Some (e j)"
      using a by simp
    have "length (map init_result papers) = length papers" by simp
    from attempts_exhausted [of "nat retries" conservative ont repr loads api k papers e, OF r this]
    show "\<forall>r \<in> set ?rs. success r = 0 \<and> (0 < retries \<longrightarrow> error_message r = Some (e (nat retries - 1)))"
      by (simp add: normalize_theory_batch_def)
  qed
  from l d t s x show ?thesis by blast
qed

text \<open>
  Claim C5. When the attempt with index \<open>j\<close> is the first to reach \<open>return results\<close>, on a
  response with usage \<open>u\<close>, a unit whose key is the key of no entry of the response is
  failed with the message "Theory not found in LLM response", and every unit of the batch,
  found or not, has the same shares: the token totals floor-divided by the batch size and
  the cost divided by the batch size.
\<close>

theorem normalize_theory_batch_not_found_share:
  assumes before: "\<And>i. i < j \<Longrightarrow> attempt_error conservative ont repr loads (api (k + i)) papers \<noteq> None"
      and at: "attempt_error conservative ont repr loads (api (k + j)) papers = None"
      and j: "int j < retries"
      and resp: "api (k + j) = ApiResponse (Some content) u"
      and parsed: "loads (clean_response_text content) = Inr (JObj d)"
      and items: "iter_items (dict_get_default d ''results'' (JList [])) = Inr items"
      and idx: "idx < length papers"
      and absent: "entries_for repr (normalize_theory_key repr (paper_aging_theory (papers ! idx))) items = []"
  shows "success (fst (normalize_theory_batch api loads repr k papers ont retries conservative) ! idx) = 0
       \<and> error_message (fst (normalize_theory_batch api loads repr k papers ont retries conservative) ! idx)
           = Some (''Theory not found in LLM response: ''
                   @ normalize_theory_key repr (paper_aging_theory (papers ! idx)))
       \<and> (\<forall>i < length papers.
            prompt_tokens (fst (normalize_theory_batch api loads repr k papers ont retries conservative) ! i)
              = usage_prompt_tokens u div int (length papers)
          \<and> completion_tokens (fst (normalize_theory_batch api loads repr k papers ont retries conservative) ! i)
              = usage_completion_tokens u div int (length papers)
          \<and> total_tokens (fst (normalize_theory_batch api loads repr k papers ont retries conservative) ! i)
              = usage_total_tokens u div int (length papers)
          \<and> cost_usd (fst (normalize_theory_batch api loads repr k papers ont retries conservative) ! i)
              = calculate_cost (usage_prompt_tokens u) (usage_completion_tokens u)
                / of_nat (length papers))"
proof -
  let ?rs = "fst (normalize_theory_batch api loads repr k papers ont retries conservative)"
  from batch_completed [where api = api and k = k and j = j and conservative = conservative
      and ont = ont and repr = repr and loads = loads and papers = papers and retries = retries,
      OF before at j] resp obtain rs0 where
    l0: "length rs0 = length papers"
    and t: "try_batch conservative ont repr loads (ApiResponse (Some content) u) papers rs0 = (None, ?rs)"
    by auto
  have shares: "\<forall>i < length papers.
            prompt_tokens (?rs ! i) = usage_prompt_tokens u div int (length papers)
          \<and> completion_tokens (?rs ! i) = usage_completion_tokens u div int (length papers)
          \<and> total_tokens (?rs ! i) = usage_total_tokens u div int (length papers)
          \<and> cost_usd (?rs ! i) = calculate_cost (usage_prompt_tokens u) (usage_completion_tokens u)
                / of_nat (length papers)"
  proof (intro allI impI)
    fix i assume "i < length papers"
    from completed_unit [OF l0 t parsed items this] obtain upd where
      "?rs ! i = apply_update (share_of u (length papers)) upd (rs0 ! i)" by blast
    then show "prompt_tokens (?rs ! i) = usage_prompt_tokens u div int (length papers)
          \<and> completion_tokens (?rs ! i) = usage_completion_tokens u div int (length papers)
          \<and> total_tokens (?rs ! i) = usage_total_tokens u div int (length papers)
          \<and> cost_usd (?rs ! i) = calculate_cost (usage_prompt_tokens u) (usage_completion_tokens u)
                / of_nat (length papers)"
      by (simp add: share_of_def)
  qed
  from completed_unit [OF l0 t parsed items idx] obtain m upd where
    m: "build_lookup repr items Map.empty = Inr m"
    and uo: "unit_outcome conservative ont repr m (papers ! idx) = Inr upd"
    and r: "?rs ! idx = apply_update (share_of u (length papers)) upd (rs0 ! idx)" by blast
  have "m (normalize_theory_key repr (paper_aging_theory (papers ! idx))) = None"
    using build_lookup_entries [OF m, of "normalize_theory_key repr (paper_aging_theory (papers ! idx))"]
      absent by simp
  with uo have "upd = NotFound (''Theory not found in LLM response: ''
                   @ normalize_theory_key repr (paper_aging_theory (papers ! idx)))"
    by (simp add: unit_outcome_def Let_def)
  with r have "success (?rs ! idx) = 0
       \<and> error_message (?rs ! idx) = Some (''Theory not found in LLM response: ''
                   @ normalize_theory_key repr (paper_aging_theory (papers ! idx)))"
    by simp
  with shares show ?thesis by blast
qed

text \<open>
  Claim C10. Under the same condition the token counts of the records sum to the batch
  size times the floor of the total divided by the batch size, so each sum falls short of
  the batch's total by between 0 and \<open>B - 1\<close> tokens; the costs, divided exactly (in the
  rationals of the model), sum to the batch's cost.
\<close>

theorem normalize_theory_batch_share_sums:
  assumes before: "\<And>i. i < j \<Longrightarrow> attempt_error conservative ont repr loads (api (k + i)) papers \<noteq> None"
      and at: "attempt_error conservative ont repr loads (api (k + j)) papers = None"
      and j: "int j < retries"
      and resp: "api (k + j) = ApiResponse content u"
  shows "sum_list (map total_tokens (fst (normalize_theory_batch api loads repr k papers ont retries conservative)))
           = int (length papers) * (usage_total_tokens u div int (length papers))
       \<and> sum_list (map prompt_tokens (fst (normalize_theory_batch api loads repr k papers ont retries conservative)))
           = int (length papers) * (usage_prompt_tokens u div int (length papers))
       \<and> sum_list (map completion_tokens (fst (normalize_theory_batch api loads repr k papers ont retries conservative)))
           = int (length papers) * (usage_completion_tokens u div int (length papers))
       \<and> usage_total_tokens u
           - sum_list (map total_tokens (fst (normalize_theory_batch api loads repr k papers ont retries conservative)))
           \<in> {0 .. int (length papers) - 1}
       \<and> usage_prompt_tokens u
           - sum_list (map prompt_tokens (fst (normalize_theory_batch api loads repr k papers ont retries conservative)))
           \<in> {0 .. int (length papers) - 1}
       \<and> usage_completion_tokens u
           - sum_list (map completion_tokens (fst (normalize_theory_batch api loads repr k papers ont retries conservative)))
           \<in> {0 .. int (length papers) - 1}
       \<and> sum_list (map cost_usd (fst (normalize_theory_batch api loads repr k papers ont retries conservative)))
           = calculate_cost (usage_prompt_tokens u) (usage_completion_tokens u)"
proof -
  let ?rs = "fst (normalize_theory_batch api loads repr k papers ont retries conservative)"
  let ?B = "int (length papers)"
  from batch_completed [where api = api and k = k and j = j and conservative = conservative
      and ont = ont and repr = repr and loads = loads and papers = papers and retries = retries,
      OF before at j] resp obtain rs0 where
    l0: "length rs0 = length papers"
    and t: "try_batch conservative ont repr loads (ApiResponse content u) papers rs0 = (None, ?rs)"
    by auto
  from try_batch_complete [OF t] obtain m where
    ne: "papers \<noteq> []"
    and ml: "match_loop (unit_outcome conservative ont repr m) (share_of u (length papers)) papers rs0
               = (None, ?rs)"
    by auto
  have len: "length ?rs = length papers"
    using match_loop_length [of "unit_outcome conservative ont repr m" "share_of u (length papers)" papers rs0]
      ml l0 by simp
  have each: "\<And>r. r \<in> set ?rs \<Longrightarrow> \<exists>upd r0. r = apply_update (share_of u (length papers)) upd r0"
  proof -
    fix r assume "r \<in> set ?rs"
    then obtain i where i: "i < length ?rs" "?rs ! i = r" by (auto simp: in_set_conv_nth)
    with len have "i < length papers" by simp
    from match_loop_complete [OF l0 ml this] i show "\<exists>upd r0. r = apply_update (share_of u (length papers)) upd r0"
      by auto
  qed
  have B: "0 < ?B" using ne by simp
  have fields: "\<And>r. r \<in> set ?rs \<Longrightarrow>
         total_tokens r = usage_total_tokens u div ?B
       \<and> prompt_tokens r = usage_prompt_tokens u div ?B
       \<and> completion_tokens r = usage_completion_tokens u div ?B
       \<and> cost_usd r = calculate_cost (usage_prompt_tokens u) (usage_completion_tokens u)
                        / of_nat (length papers)"
  proof -
    fix r assume "r \<in> set ?rs"
    from each [OF this] obtain upd r0 where "r = apply_update (share_of u (length papers)) upd r0"
      by blast
    then show "total_tokens r = usage_total_tokens u div ?B
       \<and> prompt_tokens r = usage_prompt_tokens u div ?B
       \<and> completion_tokens r = usage_completion_tokens u div ?B
       \<and> cost_usd r = calculate_cost (usage_prompt_tokens u) (usage_completion_tokens u)
                        / of_nat (length papers)"
      by (simp add: share_of_def)
  qed
  have tot: "sum_list (map total_tokens ?rs) = ?B * (usage_total_tokens u div ?B)"
    using sum_list_const [of ?rs total_tokens "usage_total_tokens u div ?B"] fields len by simp
  have pro: "sum_list (map prompt_tokens ?rs) = ?B * (usage_prompt_tokens u div ?B)"
    using sum_list_const [of ?rs prompt_tokens "usage_prompt_tokens u div ?B"] fields len by simp
  have com: "sum_list (map completion_tokens ?rs) = ?B * (usage_completion_tokens u div ?B)"
    using sum_list_const [of ?rs completion_tokens "usage_completion_tokens u div ?B"] fields len
    by simp
  have "sum_list (map cost_usd ?rs)
          = of_nat (length ?rs) * (calculate_cost (usage_prompt_tokens u) (usage_completion_tokens u)
                                      / of_nat (length papers))"
    using sum_list_const [of ?rs cost_usd
        "calculate_cost (usage_prompt_tokens u) (usage_completion_tokens u) / of_nat (length papers)"]
      fields by simp
  then have cost: "sum_list (map cost_usd ?rs)
                     = calculate_cost (usage_prompt_tokens u) (usage_completion_tokens u)"
    using len ne by simp
  have short: "\<And>T. T - ?B * (T div ?B) \<in> {0 .. ?B - 1}"
  proof -
    fix T :: int
    have "T - ?B * (T div ?B) = T mod ?B" by (simp add: minus_mult_div_eq_mod)
    moreover have "0 \<le> T mod ?B" "T mod ?B < ?B" using B by simp_all
    ultimately show "T - ?B * (T div ?B) \<in> {0 .. ?B - 1}" by simp
  qed
  from tot pro com cost short show ?thesis by simp
qed

lemma map_const_replicate: "(\<And>x. x \<in> set xs \<Longrightarrow> f x = c) \<Longrightarrow> map f xs = replicate (length xs) c"
  by (induction xs) simp_all

theorem normalize_theory_batch_total_witness:
  "map doi (fst (normalize_theory_batch ex_api ex_loads_fail ex_repr 0 ex_papers ex_ontology 3 True))
     = [''d1'', ''d2'', ''d3'', ''d4'', ''d5'']
   \<and> map success (fst (normalize_theory_batch ex_api ex_loads_fail ex_repr 0 ex_papers ex_ontology 3 True))
     = [0, 0, 0, 0, 0]
   \<and> map error_message (fst (normalize_theory_batch ex_api ex_loads_fail ex_repr 0 ex_papers ex_ontology 3 True))
     = [Some ''Expecting value'', Some ''Expecting value'', Some ''Expecting value'',
        Some ''Expecting value'', Some ''Expecting value'']"
proof -
  let ?rs = "fst (normalize_theory_batch ex_api ex_loads_fail ex_repr 0 ex_papers ex_ontology 3 True)"
  have h: "\<forall>j. int j < 3 \<longrightarrow> attempt_error True ex_ontology ex_repr ex_loads_fail (ex_api (0 + j)) ex_papers
              = Some ''Expecting value''"
    by (simp add: attempt_error_def try_batch_def ex_api_def ex_loads_fail_def)
  from normalize_theory_batch_total [of ex_api ex_loads_fail ex_repr 0 ex_papers ex_ontology 3 True
      "\<lambda>j. ''Expecting value''"] h
  have a: "length ?rs = length ex_papers" "map doi ?rs = map paper_doi ex_papers"
    and b: "\<forall>r \<in> set ?rs. success r = 0 \<and> error_message r = Some ''Expecting value''"
    by simp_all
  have l: "length ?rs = 5" using a(1) by (simp add: ex_papers_def)
  have s: "map success ?rs = replicate (length ?rs) 0"
    using b by (intro map_const_replicate) simp
  have e: "map error_message ?rs = replicate (length ?rs) (Some ''Expecting value'')"
    using b by (intro map_const_replicate) simp
  from a(2) s e l show ?thesis by (simp add: ex_papers_def numeral_eq_Suc)
qed

lemma ex_keys:
  "map (\<lambda>p. normalize_theory_key ex_repr (paper_aging_theory p)) ex_papers
     = [''free radical theory'', ''telomere shortening'', ''mitochondria, ros'', ''inflammaging'', ''quantum aging'']"
  by code_simp

lemma ex_completes: "attempt_error False ex_ontology ex_repr ex_loads (ex_api (0 + 0)) ex_papers = None"
  by code_simp

lemma ex_key_1: "normalize_theory_key ex_repr (paper_aging_theory (ex_papers ! Suc 0)) = ''telomere shortening''"
  by code_simp

lemma ex_absent_1: "entries_for ex_repr (normalize_theory_key ex_repr (paper_aging_theory (ex_papers ! Suc 0))) ex_items = []"
  by code_simp

theorem normalize_theory_batch_not_found_share_witness:
  "success (fst (normalize_theory_batch ex_api ex_loads ex_repr 0 ex_papers ex_ontology 3 False) ! 1) = 0
   \<and> error_message (fst (normalize_theory_batch ex_api ex_loads ex_repr 0 ex_papers ex_ontology 3 False) ! 1)
       = Some ''Theory not found in LLM response: telomere shortening''
   \<and> prompt_tokens (fst (normalize_theory_batch ex_api ex_loads ex_repr 0 ex_papers ex_ontology 3 False) ! 1) = 200
   \<and> completion_tokens (fst (normalize_theory_batch ex_api ex_loads ex_repr 0 ex_papers ex_ontology 3 False) ! 1) = 40
   \<and> total_tokens (fst (normalize_theory_batch ex_api ex_loads ex_repr 0 ex_papers ex_ontology 3 False) ! 1) = 241
   \<and> cost_usd (fst (normalize_theory_batch ex_api ex_loads ex_repr 0 ex_papers ex_ontology 3 False) ! 1)
       = 1513 / 125000000
   \<and> total_tokens (fst (normalize_theory_batch ex_api ex_loads ex_repr 0 ex_papers ex_ontology 3 False) ! 0) = 241"
proof -
  have before: "\<And>i. i < 0 \<Longrightarrow> attempt_error False ex_ontology ex_repr ex_loads (ex_api (0 + i)) ex_papers \<noteq> None"
    by simp
  have j: "int 0 < 3" by simp
  have resp: "ex_api (0 + 0) = ApiResponse (Some ''{}'') ex_usage" by (simp add: ex_api_def)
  have parsed: "ex_loads (clean_response_text ''{}'') = Inr (JObj [(''results'', JList ex_items)])"
    by (simp add: ex_loads_def ex_response_def)
  have items: "iter_items (dict_get_default [(''results'', JList ex_items)] ''results'' (JList [])) = Inr ex_items"
    by (simp add: dict_get_default_def)
  have idx: "Suc 0 < length ex_papers" by (simp add: ex_papers_def)
  have l: "length ex_papers = 5" by (simp add: ex_papers_def)
  have c: "calculate_cost 1003 204 / 5 = 1513 / 125000000"
    by (simp add: calculate_cost_def COST_PER_1K_PROMPT_TOKENS_def COST_PER_1K_COMPLETION_TOKENS_def)
  from normalize_theory_batch_not_found_share [where api = ex_api and k = 0 and j = 0
      and conservative = False and ont = ex_ontology and repr = ex_repr and loads = ex_loads
      and papers = ex_papers and retries = 3,
      OF before ex_completes j resp parsed items idx ex_absent_1]
  show ?thesis
    by (simp add: ex_key_1 l ex_usage_def c)
qed

theorem normalize_theory_batch_share_sums_witness:
  "sum_list (map total_tokens (fst (normalize_theory_batch ex_api ex_loads ex_repr 0 ex_papers ex_ontology 3 False)))
     = 1205
   \<and> usage_total_tokens ex_usage
       - sum_list (map total_tokens (fst (normalize_theory_batch ex_api ex_loads ex_repr 0 ex_papers ex_ontology 3 False)))
     = int (length ex_papers) - 1
   \<and> sum_list (map cost_usd (fst (normalize_theory_batch ex_api ex_loads ex_repr 0 ex_papers ex_ontology 3 False)))
     = 1513 / 25000000"
proof -
  have before: "\<And>i. i < 0 \<Longrightarrow> attempt_error False ex_ontology ex_repr ex_loads (ex_api (0 + i)) ex_papers \<noteq> None"
    by simp
  have j: "int 0 < 3" by simp
  have resp: "ex_api (0 + 0) = ApiResponse (Some ''{}'') ex_usage" by (simp add: ex_api_def)
  have l: "length ex_papers = 5" by (simp add: ex_papers_def)
  have c: "calculate_cost 1003 204 = 1513 / 25000000"
    by (simp add: calculate_cost_def COST_PER_1K_PROMPT_TOKENS_def COST_PER_1K_COMPLETION_TOKENS_def)
  from normalize_theory_batch_share_sums [where api = ex_api and k = 0 and j = 0
      and conservative = False and ont = ex_ontology and repr = ex_repr and loads = ex_loads
      and papers = ex_papers and retries = 3, OF before ex_completes j resp]
  show ?thesis
    by (simp add: l ex_usage_def c)
qed



















subsection \<open>The sequential pipeline in conservative mode\<close>

text \<open>
  In conservative mode the main pass passes the seed ontology to every batch and leaves the
  working ontology as it is.
\<close>

lemma main_pass_conservative:
  "working_ontology (main_pass api loads repr ont True batches st) = working_ontology st
   \<and> passed (main_pass api loads repr ont True batches st) = passed st @ replicate (length batches) ont"
proof (induction batches arbitrary: st)
  case Nil
  show ?case by simp
next
  case (Cons batch batches)
  obtain rs k where b: "normalize_theory_batch api loads repr (next_call st) batch ont RETRIES True = (rs, k)"
    by (cases "normalize_theory_batch api loads repr (next_call st) batch ont RETRIES True")
  show ?case using b Cons.IH by (simp add: Let_def replicate_app_Cons_same)
qed

text \<open>
  Claim C3 fails on the retry pass, which passes the working ontology to the batch call and
  extracts new theories in either mode. On the eleven papers above, in conservative mode,
  the first retry batch appends an entry to the working ontology (the name passes the
  validation against the lower-cased seed names and differs from the seed's
  \<open>Theory Name\<close> by case), and the second retry batch is passed the ontology so grown.
\<close>

theorem normalize_theories_sequential_conservative_retry_grows:
  "run_summary (normalize_theories_sequential bug_api bug_loads ex_repr bug_papers bug_seed True)
     = (None, [1, 1, 1, 1, 1, 1, 1, 1, 1, 1, 1], bug_seed @ [bug_entry],
        [bug_seed, bug_seed, bug_seed @ [bug_entry]])"
  by code_simp

end
